theory Spec2Isabelle
  imports Complex_Main "HOL-Library.Sublist"
begin

section \<open>JavaScript values\<close>

text \<open>
  The analyzer receives the reply of the AI service as the result of \<^verbatim>\<open>JSON.parse\<close>, so the
  fields of a returned item are arbitrary JSON values, not the types of the TypeScript
  interface. A number produced by \<^verbatim>\<open>JSON.parse\<close> is a double: a finite value, which is a
  real number, or an infinity (the literal \<^verbatim>\<open>1e999\<close> parses to \<^verbatim>\<open>Infinity\<close>). \<^verbatim>\<open>NaN\<close> is never
  produced by \<^verbatim>\<open>JSON.parse\<close> and is not part of the model.
\<close>

datatype jsnum = NegInfinity | Finite real | PosInfinity

fun js_le :: "jsnum \<Rightarrow> jsnum \<Rightarrow> bool" where
  "js_le NegInfinity _ = True"
| "js_le _ PosInfinity = True"
| "js_le (Finite x) (Finite y) = (x \<le> y)"
| "js_le _ _ = False"

definition js_less :: "jsnum \<Rightarrow> jsnum \<Rightarrow> bool" where
  "js_less a b = (\<not> js_le b a)"

definition Math_min :: "jsnum \<Rightarrow> jsnum \<Rightarrow> jsnum" where
  "Math_min a b = (if js_le a b then a else b)"

definition Math_max :: "jsnum \<Rightarrow> jsnum \<Rightarrow> jsnum" where
  "Math_max a b = (if js_le a b then b else a)"

text \<open>
  \<open>JUndefined\<close> is the value of a property that the object does not have. \<open>JObject\<close> stands
  for every array and object: the code below only tests such a value for truthiness, calls
  \<^verbatim>\<open>toLowerCase\<close> on it (which throws) or compares it with a string.
\<close>

datatype jsval = JUndefined | JNull | JBool bool | JNum jsnum | JStr string | JObject

fun truthy :: "jsval \<Rightarrow> bool" where
  "truthy JUndefined = False"
| "truthy JNull = False"
| "truthy (JBool b) = b"
| "truthy (JNum n) = (n \<noteq> Finite 0)"
| "truthy (JStr s) = (s \<noteq> [])"
| "truthy JObject = True"

text \<open>The operator \<^verbatim>\<open>a || b\<close>.\<close>

definition js_or :: "jsval \<Rightarrow> jsval \<Rightarrow> jsval" where
  "js_or a b = (if truthy a then a else b)"

text \<open>
  An exception carries a message; \<open>handleSubmitAnalysis\<close> reads nothing else of it. The
  messages of the \<^verbatim>\<open>TypeError\<close>s raised by the engine itself are those of V8.
\<close>

datatype js_error = Error string | TypeError string

fun message :: "js_error \<Rightarrow> string" where
  "message (Error m) = m"
| "message (TypeError m) = m"

section \<open>Strings\<close>

text \<open>
  A \<^typ>\<open>char\<close> is one code unit in the range U+0000 to U+00FF. On that range
  \<^verbatim>\<open>toLowerCase\<close> maps A to Z and the Latin-1 capitals U+00C0 to U+00DE (without the
  multiplication sign U+00D7) to the code unit 32 above, and the class \<^verbatim>\<open>\s\<close> of a regular
  expression, which is also what \<^verbatim>\<open>trim\<close> removes, holds the code units 9 to 13, 32 and 160.
\<close>

definition toLowerCase_char :: "char \<Rightarrow> char" where
  "toLowerCase_char c =
     (let n = (of_char c :: nat)
      in if (65 \<le> n \<and> n \<le> 90) \<or> (192 \<le> n \<and> n \<le> 222 \<and> n \<noteq> 215)
         then char_of (n + 32) else c)"

definition toLowerCase :: "string \<Rightarrow> string" where
  "toLowerCase s = map toLowerCase_char s"

definition isWhiteSpace :: "char \<Rightarrow> bool" where
  "isWhiteSpace c = ((of_char c :: nat) \<in> {9, 10, 11, 12, 13, 32, 160})"

definition trim :: "string \<Rightarrow> string" where
  "trim s = rev (dropWhile isWhiteSpace (rev (dropWhile isWhiteSpace s)))"

text \<open>\<^verbatim>\<open>id.toLowerCase().replace(/\s+/g, '').replace(/-/g, '')\<close>\<close>

definition lower_strip :: "string \<Rightarrow> string" where
  "lower_strip s =
     filter (\<lambda>c. c \<noteq> CHR ''-'') (filter (\<lambda>c. \<not> isWhiteSpace c) (toLowerCase s))"

section \<open>The standards catalog\<close>

text \<open>
  The \<^verbatim>\<open>description\<close> of a standard is only pasted into the prompt sent to the AI service
  and is left out of the record.
\<close>

record Standard =
  std_id :: string
  std_name :: string

record AccreditationBody =
  body_key :: string
  body_name :: string
  standards :: "Standard list"

definition ADA :: AccreditationBody where
  "ADA = \<lparr> body_key = ''ADA'', body_name = ''American Dental Association (ADA CODA)'',
     standards = [
       \<lparr> std_id = ''ADA-1.1'', std_name = ''Curriculum Management & Evaluation'' \<rparr>,
       \<lparr> std_id = ''ADA-2.3'', std_name = ''Patient Care Competencies'' \<rparr>,
       \<lparr> std_id = ''ADA-3.5'', std_name = ''Ethical Reasoning and Professional Conduct'' \<rparr>,
       \<lparr> std_id = ''ADA-4.1'', std_name = ''Faculty and Staff Qualifications'' \<rparr>,
       \<lparr> std_id = ''ADA-5.2'', std_name = ''Learning Environment and Resources'' \<rparr>,
       \<lparr> std_id = ''ADA-6.0'', std_name = ''Research and Scholarly Activity'' \<rparr> ] \<rparr>"

definition GDC :: AccreditationBody where
  "GDC = \<lparr> body_key = ''GDC'', body_name = ''General Dental Council (GDC)'',
     standards = [
       \<lparr> std_id = ''GDC-1.0'', std_name = ''Clinical Safety and Effectiveness'' \<rparr>,
       \<lparr> std_id = ''GDC-2.0'', std_name = ''Communication'' \<rparr>,
       \<lparr> std_id = ''GDC-3.0'', std_name = ''Professionalism'' \<rparr>,
       \<lparr> std_id = ''GDC-4.0'', std_name = ''Continuing Professional Development (CPD)'' \<rparr>,
       \<lparr> std_id = ''GDC-5.0'', std_name = ''Teamworking'' \<rparr> ] \<rparr>"

definition NCAAA :: AccreditationBody where
  "NCAAA = \<lparr> body_key = ''NCAAA'',
     body_name = ''National Center for Academic Accreditation and Assessment (NCAAA - ETEC)'',
     standards = [
       \<lparr> std_id = ''NCAAA-S1'', std_name = ''Mission and Goals'' \<rparr>,
       \<lparr> std_id = ''NCAAA-S2'', std_name = ''Program Management and Quality Assurance'' \<rparr>,
       \<lparr> std_id = ''NCAAA-S3'', std_name = ''Curriculum'' \<rparr>,
       \<lparr> std_id = ''NCAAA-S4'', std_name = ''Learning and Teaching'' \<rparr>,
       \<lparr> std_id = ''NCAAA-S5'', std_name = ''Student Administration and Support Services'' \<rparr>,
       \<lparr> std_id = ''NCAAA-S6'', std_name = ''Learning Resources'' \<rparr>,
       \<lparr> std_id = ''NCAAA-S7'', std_name = ''Facilities and Equipment'' \<rparr>,
       \<lparr> std_id = ''NCAAA-S8'', std_name = ''Faculty and Staff'' \<rparr>,
       \<lparr> std_id = ''NCAAA-S9'', std_name = ''Research'' \<rparr>,
       \<lparr> std_id = ''NCAAA-S10'', std_name = ''Community Engagement'' \<rparr>,
       \<lparr> std_id = ''NCAAA-S11'', std_name = ''Program Evaluation and Improvement'' \<rparr> ] \<rparr>"

definition ACCREDITATION_BODIES :: "AccreditationBody list" where
  "ACCREDITATION_BODIES = [ADA, GDC, NCAAA]"

section \<open>Reconciliation of one returned item\<close>

text \<open>
  \<open>raw_item\<close> holds the five properties that the callback of \<^verbatim>\<open>parsedData.results.map\<close>
  reads from a returned item, \<open>AnalysisResultItem\<close> the object it builds. The cast
  \<^verbatim>\<open>as AnalysisResultsGroup\<close> checks nothing at run time, so the built fields are JavaScript
  values too.
\<close>

record raw_item =
  raw_standardId :: jsval
  raw_standardName :: jsval
  raw_matchPercentage :: jsval
  raw_improvementFeedback :: jsval
  raw_reasoning :: jsval

record AnalysisResultItem =
  standardId :: jsval
  standardName :: jsval
  matchPercentage :: jsnum
  improvementFeedback :: jsval
  reasoning :: jsval

text \<open>
  \<^verbatim>\<open>normalizeId = (id) => id ? id.toLowerCase().replace(...).replace(...) : ''\<close>. A truthy
  value that is not a string has no method \<^verbatim>\<open>toLowerCase\<close>.
\<close>

definition normalizeId :: "jsval \<Rightarrow> js_error + string" where
  "normalizeId v =
     (if truthy v
      then (case v of JStr s \<Rightarrow> Inr (lower_strip s)
                    | _ \<Rightarrow> Inl (TypeError ''id.toLowerCase is not a function''))
      else Inr [])"

text \<open>The predicate \<^verbatim>\<open>s => normalizeId(s.id) === normalizeId(originalApiStandardId)\<close>.\<close>

definition id_matches :: "Standard \<Rightarrow> jsval \<Rightarrow> js_error + bool" where
  "id_matches s originalApiStandardId =
     (case normalizeId (JStr (std_id s)) of
        Inl e \<Rightarrow> Inl e
      | Inr a \<Rightarrow> (case normalizeId originalApiStandardId of
                    Inl e \<Rightarrow> Inl e
                  | Inr b \<Rightarrow> Inr (a = b)))"

text \<open>\<^verbatim>\<open>standards.find(...)\<close>: the first standard that the predicate accepts.\<close>

fun find_standard :: "Standard list \<Rightarrow> jsval \<Rightarrow> js_error + Standard option" where
  "find_standard [] originalApiStandardId = Inr None"
| "find_standard (s # ss) originalApiStandardId =
     (case id_matches s originalApiStandardId of
        Inl e \<Rightarrow> Inl e
      | Inr True \<Rightarrow> Inr (Some s)
      | Inr False \<Rightarrow> find_standard ss originalApiStandardId)"

definition clamp_percentage :: "jsval \<Rightarrow> jsnum" where
  "clamp_percentage v =
     (case v of JNum n \<Rightarrow> Math_max (Finite 0) (Math_min (Finite 100) n) | _ \<Rightarrow> Finite 0)"

definition backfill_reasoning :: "jsval \<Rightarrow> jsval \<Rightarrow> jsval" where
  "backfill_reasoning r v =
     js_or r (case v of
                JNum n \<Rightarrow> if js_less n (Finite 75)
                          then JStr ''Reasoning not explicitly provided by AI.''
                          else JUndefined
              | _ \<Rightarrow> JUndefined)"

definition reconcileItem :: "AccreditationBody \<Rightarrow> raw_item \<Rightarrow> js_error + AnalysisResultItem" where
  "reconcileItem selectedAccreditationBody item =
     (let originalApiStandardId = raw_standardId item
      in case find_standard (standards selectedAccreditationBody) originalApiStandardId of
           Inl e \<Rightarrow> Inl e
         | Inr matchedStandard \<Rightarrow> Inr \<lparr>
             standardId = (case matchedStandard of
                             Some s \<Rightarrow> JStr (std_id s)
                           | None \<Rightarrow> js_or originalApiStandardId (JStr ''N/A'')),
             standardName = (case matchedStandard of
                               Some s \<Rightarrow> JStr (std_name s)
                             | None \<Rightarrow> js_or (raw_standardName item) (JStr ''Unknown Standard'')),
             matchPercentage = clamp_percentage (raw_matchPercentage item),
             improvementFeedback =
               js_or (raw_improvementFeedback item) (JStr ''No feedback provided.''),
             reasoning = backfill_reasoning (raw_reasoning item) (raw_matchPercentage item) \<rparr>)"

section \<open>Analysis of one accreditation body\<close>

text \<open>
  An element of the returned \<^verbatim>\<open>results\<close> array is \<^verbatim>\<open>null\<close>, and then reading its
  \<^verbatim>\<open>standardId\<close> throws, or a value whose properties can be read.
\<close>

datatype result_elem = NullElem | Elem raw_item

definition reconcileElem :: "AccreditationBody \<Rightarrow> result_elem \<Rightarrow> js_error + AnalysisResultItem" where
  "reconcileElem selectedAccreditationBody e =
     (case e of
        NullElem \<Rightarrow> Inl (TypeError ''Cannot read properties of null (reading 'standardId')'')
      | Elem item \<Rightarrow> reconcileItem selectedAccreditationBody item)"

text \<open>\<^verbatim>\<open>parsedData.results.map(...)\<close>: the first exception of the callback ends the map.\<close>

fun map_results :: "AccreditationBody \<Rightarrow> result_elem list \<Rightarrow> js_error + AnalysisResultItem list" where
  "map_results selectedAccreditationBody [] = Inr []"
| "map_results selectedAccreditationBody (e # es) =
     (case reconcileElem selectedAccreditationBody e of
        Inl err \<Rightarrow> Inl err
      | Inr r \<Rightarrow> (case map_results selectedAccreditationBody es of
                    Inl err \<Rightarrow> Inl err
                  | Inr rs \<Rightarrow> Inr (r # rs)))"

record AnalysisResultsGroup =
  accreditationBodyKey :: string
  accreditationBodyName :: string
  items :: "AnalysisResultItem list"

text \<open>
  The AI service and \<^verbatim>\<open>JSON.parse\<close> are outside the program. What they hand to the code
  for one body is: an exception (the call is rejected, the reply has no text, the text is no
  JSON), the value \<^verbatim>\<open>null\<close> (reading \<^verbatim>\<open>results\<close> of it throws), a value whose \<^verbatim>\<open>results\<close> is
  falsy or not an array, or a value with a \<^verbatim>\<open>results\<close> array.
\<close>

datatype ai_reply =
    Throws js_error
  | ParsedNull
  | ParsedWithoutResults
  | ParsedResults "result_elem list"

text \<open>The asynchronous callback of \<^verbatim>\<open>selectedBodyKeys.map\<close>; \<open>Inl\<close> is a rejected promise.\<close>

definition analyzeBody :: "(AccreditationBody \<Rightarrow> ai_reply) \<Rightarrow> string \<Rightarrow> js_error + AnalysisResultsGroup" where
  "analyzeBody ai bodyKey =
     (case find (\<lambda>b. body_key b = bodyKey) ACCREDITATION_BODIES of
        None \<Rightarrow> Inl (Error (''Invalid accreditation body key: '' @ bodyKey))
      | Some selectedAccreditationBody \<Rightarrow>
          (case ai selectedAccreditationBody of
             Throws e \<Rightarrow> Inl e
           | ParsedNull \<Rightarrow> Inl (TypeError ''Cannot read properties of null (reading 'results')'')
           | ParsedWithoutResults \<Rightarrow>
               Inl (Error (''Invalid JSON structure in API response for ''
                           @ body_name selectedAccreditationBody
                           @ ''. Expected 'results' array.''))
           | ParsedResults elems \<Rightarrow>
               (case map_results selectedAccreditationBody elems of
                  Inl e \<Rightarrow> Inl e
                | Inr rs \<Rightarrow> Inr \<lparr>
                    accreditationBodyKey = body_key selectedAccreditationBody,
                    accreditationBodyName = body_name selectedAccreditationBody,
                    items = filter (\<lambda>i. standardId i \<noteq> JStr ''N/A'') rs \<rparr>)))"

section \<open>Users, submissions and the state of the analyzer\<close>

datatype UserRole = Admin | UniversityLead | UniversityID

record User =
  username :: string
  role :: UserRole

text \<open>
  A timestamp is the instant, in milliseconds since the epoch, that the ISO string written
  by \<^verbatim>\<open>new Date().toISOString()\<close> denotes and that \<^verbatim>\<open>new Date(s).getTime()\<close> reads back.
\<close>

type_synonym timestamp = int

record SubmissionNote =
  note_by :: string
  note_role :: UserRole
  note_timestamp :: timestamp
  note_text :: string

datatype submission_status = Pending | Approved | Rejected

datatype ProgramContentLanguage = English | Arabic

record Submission =
  sub_id :: string
  submittedByUsername :: string
  submittedByUserRole :: UserRole
  submittedAt :: timestamp
  sub_programContent :: string
  sub_programContentLanguage :: ProgramContentLanguage
  sub_analysisResults :: "AnalysisResultsGroup list"
  sub_selectedBodyKeys :: "string list"
  status :: submission_status
  sub_notes :: "SubmissionNote list"

record revising_info =
  rev_id :: string
  originalStatus :: submission_status
  rev_notes :: "SubmissionNote list option"

text \<open>
  The state of the component \<^verbatim>\<open>AccreditationAnalyzer\<close> that the handlers below read or
  write, with its property \<open>currentUser\<close> and the array stored in the browser under
  \<^verbatim>\<open>LOCAL_STORAGE_SUBMISSIONS_KEY\<close> (\<open>stored_submissions\<close>; an absent key is the empty
  array). The two lists that are only displayed (\<^verbatim>\<open>userPastSubmissions\<close>,
  \<^verbatim>\<open>submissionsForReview\<close>), the alerts and the console are left out.
\<close>

record analyzer_state =
  currentUser :: User
  selectedBodyKeys :: "string list"
  programContent :: string
  programContentLanguage :: ProgramContentLanguage
  analysisResults :: "AnalysisResultsGroup list option"
  isLoading :: bool
  isSubmitting :: bool
  error :: "string option"
  showPrintableReport :: bool
  revisingSubmissionInfo :: "revising_info option"
  hasPendingSubmission :: bool
  stored_submissions :: "Submission list"

section \<open>handleSubmitAnalysis\<close>

text \<open>
  The updater \<^verbatim>\<open>prevError => (prevError ? prevError + "\n" : "") + `Analysis failed for
  one or more accreditation bodies: ${message}`\<close>.
\<close>

definition add_failure :: "string option \<Rightarrow> string \<Rightarrow> string option" where
  "add_failure prevError msg =
     Some ((case prevError of
              Some p \<Rightarrow> if p \<noteq> [] then p @ [CHR 0x0A] else []
            | None \<Rightarrow> [])
           @ ''Analysis failed for one or more accreditation bodies: '' @ msg)"

text \<open>
  \<^verbatim>\<open>settledResults.forEach\<close> over the accumulator \<open>(successfulResults, error,
  encounteredError)\<close>.
\<close>

fun forEach_settled ::
  "(js_error + AnalysisResultsGroup) list \<Rightarrow>
   AnalysisResultsGroup list \<times> string option \<times> bool \<Rightarrow>
   AnalysisResultsGroup list \<times> string option \<times> bool" where
  "forEach_settled [] acc = acc"
| "forEach_settled (Inr g # rs) (successfulResults, err, encounteredError) =
     forEach_settled rs (successfulResults @ [g], err, encounteredError)"
| "forEach_settled (Inl e # rs) (successfulResults, err, encounteredError) =
     forEach_settled rs (successfulResults, add_failure err (message e), True)"

text \<open>
  The part of \<open>handleSubmitAnalysis\<close> after its three checks. The calls for the selected
  bodies are awaited together (\<^verbatim>\<open>Promise.allSettled\<close>); the model takes the whole handler as
  one step, so nothing else changes the state while the calls are pending.
\<close>

definition run_analysis :: "(AccreditationBody \<Rightarrow> ai_reply) \<Rightarrow> analyzer_state \<Rightarrow> analyzer_state" where
  "run_analysis ai st =
     (let st1 = st\<lparr> isLoading := True, error := None, analysisResults := None,
                    showPrintableReport := False \<rparr>;
          settledResults = map (analyzeBody ai) (selectedBodyKeys st1);
          (successfulResults, err, encounteredError) =
             forEach_settled settledResults ([], error st1, False);
          st2 = st1\<lparr> error := err \<rparr>;
          st3 = (if successfulResults \<noteq> []
                 then st2\<lparr> analysisResults := Some successfulResults \<rparr> else st2);
          st4 = (if successfulResults = [] \<and> encounteredError
                 then st3\<lparr> error := Some ''Failed to analyze content for all selected accreditation bodies. Please check your input or try again later.'' \<rparr>
                 else st3)
      in st4\<lparr> isLoading := False \<rparr>)"

definition handleSubmitAnalysis :: "(AccreditationBody \<Rightarrow> ai_reply) \<Rightarrow> analyzer_state \<Rightarrow> analyzer_state" where
  "handleSubmitAnalysis ai st =
     (if trim (programContent st) = []
      then st\<lparr> error := Some ''Please enter or upload program content.'' \<rparr>
      else if selectedBodyKeys st = []
      then st\<lparr> error := Some ''Please select at least one accreditation body.'' \<rparr>
      else if hasPendingSubmission st \<and> role (currentUser st) = UniversityID
              \<and> revisingSubmissionInfo st = None
      then st\<lparr> error := Some ''You have a submission pending review. Cannot start a new analysis.'' \<rparr>
      else run_analysis ai st)"

text \<open>
  The outcome of the settled calls in the words of the specification: the values of the
  fulfilled promises, the reasons of the rejected ones, and the warning, one line for each
  rejected call.
\<close>

fun fulfilled :: "('e + 'a) list \<Rightarrow> 'a list" where
  "fulfilled [] = []"
| "fulfilled (Inr g # rs) = g # fulfilled rs"
| "fulfilled (Inl e # rs) = fulfilled rs"

fun rejected :: "('e + 'a) list \<Rightarrow> 'e list" where
  "rejected [] = []"
| "rejected (Inr g # rs) = rejected rs"
| "rejected (Inl e # rs) = e # rejected rs"

definition failure_line :: "js_error \<Rightarrow> string" where
  "failure_line e = ''Analysis failed for one or more accreditation bodies: '' @ message e"

fun join_lines :: "string list \<Rightarrow> string" where
  "join_lines [] = []"
| "join_lines [l] = l"
| "join_lines (l # ls) = l @ [CHR 0x0A] @ join_lines ls"

section \<open>Submitting for review\<close>

text \<open>
  The browser store is outside the program, and a call of it can throw: reading it
  (\<^verbatim>\<open>localStorage.getItem\<close> and \<^verbatim>\<open>JSON.parse\<close> of what it returns) or writing it
  (\<^verbatim>\<open>localStorage.setItem\<close>, when the quota is exceeded). A handler that reads and writes
  the store inside \<^verbatim>\<open>try\<close> takes as \<open>fault\<close> what the store does in that call.
\<close>

datatype store_fault = NoFault | ReadThrows js_error | WriteThrows js_error

text \<open>
  \<open>newId\<close> is the value of \<^verbatim>\<open>crypto.randomUUID()\<close> and \<open>now\<close> the time of the call. When
  the store throws, nothing has been written and no state has been set yet; the \<^verbatim>\<open>catch\<close>
  branch sets the error text and \<^verbatim>\<open>finally\<close> ends the submitting.
\<close>

definition submit_failed :: "js_error \<Rightarrow> analyzer_state \<Rightarrow> analyzer_state" where
  "submit_failed e st =
     st\<lparr> error := Some (''Failed to submit for review: '' @ message e @ ''. Please try again.''),
         isSubmitting := False \<rparr>"

definition handleSubmitForReview ::
  "store_fault \<Rightarrow> string \<Rightarrow> timestamp \<Rightarrow> analyzer_state \<Rightarrow> analyzer_state" where
  "handleSubmitForReview fault newId now st =
     (case analysisResults st of
        None \<Rightarrow> st\<lparr> error := Some ''Cannot submit for review: analysis results or program content is missing.'' \<rparr>
      | Some results \<Rightarrow>
          if programContent st = []
          then st\<lparr> error := Some ''Cannot submit for review: analysis results or program content is missing.'' \<rparr>
          else
            let newSubmission = \<lparr>
                  sub_id = newId,
                  submittedByUsername = username (currentUser st),
                  submittedByUserRole = role (currentUser st),
                  submittedAt = now,
                  sub_programContent = programContent st,
                  sub_programContentLanguage = programContentLanguage st,
                  sub_analysisResults = results,
                  sub_selectedBodyKeys = selectedBodyKeys st,
                  status = Pending,
                  sub_notes = (case revisingSubmissionInfo st of
                             None \<Rightarrow> []
                           | Some info \<Rightarrow> (case rev_notes info of None \<Rightarrow> [] | Some ns \<Rightarrow> ns)) \<rparr>
            in case fault of
                 ReadThrows e \<Rightarrow> submit_failed e st
               | WriteThrows e \<Rightarrow> submit_failed e st
               | NoFault \<Rightarrow>
                   st\<lparr> stored_submissions := stored_submissions st @ [newSubmission],
                       analysisResults := None,
                       programContent := [],
                       selectedBodyKeys := [],
                       hasPendingSubmission := True,
                       revisingSubmissionInfo := None,
                       error := Some ''You have a submission pending review. Please wait for Admin/Lead approval before making a new submission.'',
                       isSubmitting := False \<rparr>)"

text \<open>
  The effect \<^verbatim>\<open>loadSubmissionsData\<close>, which React runs after the component is mounted and
  after every change of \<open>currentUser\<close> or \<open>revisingSubmissionInfo\<close>. It reads the store
  outside any \<^verbatim>\<open>try\<close>; the definition is the effect that runs to its end.
\<close>

definition loadSubmissionsData :: "analyzer_state \<Rightarrow> analyzer_state" where
  "loadSubmissionsData st =
     (if role (currentUser st) = Admin \<or> role (currentUser st) = UniversityLead then st
      else
        let userSubmissions =
              filter (\<lambda>s. submittedByUsername s = username (currentUser st)) (stored_submissions st);
            userPendingSubmission = find (\<lambda>s. status s = Pending) userSubmissions;
            st1 = st\<lparr> hasPendingSubmission := (userPendingSubmission \<noteq> None) \<rparr>
        in if userPendingSubmission \<noteq> None \<and> revisingSubmissionInfo st = None
           then st1\<lparr> error := Some ''You have a submission pending review. Please wait for Admin/Lead approval or load a past submission to revise.'' \<rparr>
           else if revisingSubmissionInfo st = None then st1\<lparr> error := None \<rparr>
           else st1)"

section \<open>Reviewer notes\<close>

text \<open>
  The state of the dialog \<^verbatim>\<open>SubmissionReviewModal\<close>: its properties \<open>submission\<close> (the copy
  of the submission that the list of the analyzer held when the dialog was opened) and
  \<open>reviewer\<close> (\<^verbatim>\<open>currentUser\<close>), and its own state.
\<close>

record review_modal =
  submission :: Submission
  reviewer :: User
  currentSubmissionNotes :: "SubmissionNote list"
  newNoteText :: string


fun findIndex :: "('a \<Rightarrow> bool) \<Rightarrow> 'a list \<Rightarrow> nat option" where
  "findIndex P [] = None"
| "findIndex P (x # xs) = (if P x then Some 0 else map_option Suc (findIndex P xs))"

text \<open>
  When the dialog is opened, its notes start as those of the submission it is opened on
  (\<^verbatim>\<open>useState(submission.notes || [])\<close>) and the note text is empty.
\<close>

definition open_review_modal :: "Submission \<Rightarrow> User \<Rightarrow> review_modal" where
  "open_review_modal s u =
     \<lparr> submission = s, reviewer = u, currentSubmissionNotes = sub_notes s, newNoteText = [] \<rparr>"

text \<open>
  \<open>handleAddNote\<close> returns the dialog, the stored submissions and the alert it shows, if
  any. The notes of the dialog are set before the \<^verbatim>\<open>try\<close>; the store is read at its
  beginning and written only when the submission has been found, and the \<^verbatim>\<open>catch\<close> branch
  shows an alert.
\<close>

definition handleAddNote ::
  "store_fault \<Rightarrow> timestamp \<Rightarrow> review_modal \<Rightarrow> Submission list \<Rightarrow>
   review_modal \<times> Submission list \<times> string option" where
  "handleAddNote fault now m submissions =
     (if trim (newNoteText m) = [] then (m, submissions, Some ''Note text cannot be empty.'')
      else
        let newNote = \<lparr> note_by = username (reviewer m), note_role = role (reviewer m),
                        note_timestamp = now, note_text = trim (newNoteText m) \<rparr>;
            updatedNotes = currentSubmissionNotes m @ [newNote];
            m1 = m\<lparr> currentSubmissionNotes := updatedNotes \<rparr>
        in case fault of
             ReadThrows e \<Rightarrow> (m1, submissions, Some ''An error occurred while adding the note.'')
           | _ \<Rightarrow>
               (case findIndex (\<lambda>s. sub_id s = sub_id (submission m)) submissions of
                  Some submissionIndex \<Rightarrow>
                    (case fault of
                       WriteThrows e \<Rightarrow>
                         (m1, submissions, Some ''An error occurred while adding the note.'')
                     | _ \<Rightarrow>
                         (m1\<lparr> newNoteText := [] \<rparr>,
                          submissions[submissionIndex :=
                            (submissions ! submissionIndex)\<lparr> sub_notes := updatedNotes \<rparr>],
                          None))
                | None \<Rightarrow>
                    (m1, submissions, Some ''Error: Could not find the submission to add note.'')))"

section \<open>Login\<close>

record StoredUser =
  su_username :: string
  su_role :: UserRole
  su_password :: "string option"

datatype login_result = LoggedIn User | LoginError string

text \<open>
  \<open>handleSubmit\<close> of the component \<^verbatim>\<open>Login\<close>; \<open>storedUsers\<close> is the array stored under
  \<^verbatim>\<open>LOCAL_STORAGE_USERS_KEY\<close> (empty when the key is absent).
\<close>

definition handleSubmit :: "StoredUser list \<Rightarrow> string \<Rightarrow> string \<Rightarrow> login_result" where
  "handleSubmit storedUsers uname pw =
     (case find (\<lambda>u. toLowerCase (su_username u) = toLowerCase uname) storedUsers of
        Some foundUser \<Rightarrow>
          if su_password foundUser = Some pw
          then LoggedIn \<lparr> username = su_username foundUser, role = su_role foundUser \<rparr>
          else LoginError ''Invalid username or password.''
      | None \<Rightarrow>
          if toLowerCase uname = ''admin'' \<and> pw = ''adminpass''
          then LoggedIn \<lparr> username = ''admin'', role = Admin \<rparr>
          else if toLowerCase uname = ''lead'' \<and> pw = ''leadpass''
          then LoggedIn \<lparr> username = ''lead'', role = UniversityLead \<rparr>
          else LoginError ''Invalid username or password.'')"

section \<open>Internal messages\<close>

datatype recipient_type = ToUser | ToRole

record RecipientIdentifier =
  rcp_type :: recipient_type
  rcp_value :: string

record InternalMessage =
  msg_id :: string
  senderUsername :: string
  senderRole :: UserRole
  recipientIdentifier :: RecipientIdentifier
  msg_subject :: string
  msg_body :: string
  msg_timestamp :: timestamp
  readBy :: "(string \<rightharpoonup> bool) option"

text \<open>
  The state of the dialog \<^verbatim>\<open>InternalMessagesModal\<close> and the array stored under
  \<^verbatim>\<open>LOCAL_STORAGE_INTERNAL_MESSAGES_KEY\<close>.
\<close>

record messages_state =
  messages :: "InternalMessage list"
  selectedMessage :: "InternalMessage option"
  stored_messages :: "InternalMessage list"

text \<open>
  \<^verbatim>\<open>sort((a, b) => new Date(b.timestamp).getTime() - new Date(a.timestamp).getTime())\<close>:
  newest first, and stable, as \<^verbatim>\<open>Array.prototype.sort\<close> is.
\<close>

definition sort_newest_first :: "InternalMessage list \<Rightarrow> InternalMessage list" where
  "sort_newest_first ms = sort_key (\<lambda>m. - msg_timestamp m) ms"

text \<open>\<^verbatim>\<open>{ ...msg, readBy: { ...(msg.readBy || {}), [currentUser.username]: true } }\<close>\<close>

definition with_reader :: "string \<Rightarrow> InternalMessage \<Rightarrow> InternalMessage" where
  "with_reader u msg =
     msg\<lparr> readBy := Some ((case readBy msg of None \<Rightarrow> Map.empty | Some rb \<Rightarrow> rb)(u \<mapsto> True)) \<rparr>"

definition markMessageAsRead :: "User \<Rightarrow> string \<Rightarrow> messages_state \<Rightarrow> messages_state" where
  "markMessageAsRead cu messageId st =
     (let updatedMessages =
            map (\<lambda>msg. if msg_id msg = messageId then with_reader (username cu) msg else msg)
                (messages st)
      in st\<lparr> stored_messages := updatedMessages,
             messages := sort_newest_first updatedMessages,
             selectedMessage :=
               (case selectedMessage st of
                  None \<Rightarrow> None
                | Some sel \<Rightarrow> if msg_id sel = messageId
                              then Some (with_reader (username cu) sel) else Some sel) \<rparr>)"

section \<open>Sample inputs\<close>

text \<open>
  A returned item with the given \<open>standardId\<close>, \<open>matchPercentage\<close> and \<open>reasoning\<close>, a
  feedback text and no \<open>standardName\<close>.
\<close>

definition returned_item :: "jsval \<Rightarrow> jsval \<Rightarrow> jsval \<Rightarrow> raw_item" where
  "returned_item sid mp rs =
     \<lparr> raw_standardId = sid, raw_standardName = JUndefined, raw_matchPercentage = mp,
       raw_improvementFeedback = JStr ''Describe the review cycle.'', raw_reasoning = rs \<rparr>"

text \<open>
  A service that answers for the body ADA with three items (an id that matches a standard
  after normalisation, an id that matches none, and no id) and fails for every other body.
\<close>

definition ai_sample :: "AccreditationBody \<Rightarrow> ai_reply" where
  "ai_sample b =
     (if body_key b = ''ADA''
      then ParsedResults
             [Elem (returned_item (JStr ''ada 1.1'') (JNum (Finite 60)) JUndefined),
              Elem (returned_item (JStr ''XYZ-9'') (JNum (Finite 80)) JUndefined),
              Elem (returned_item JUndefined (JNum (Finite 10)) JUndefined)]
      else Throws (Error ''Network error''))"

text \<open>
  A University ID user without pending submission who has entered content and selected
  the bodies ADA and GDC, and the group that \<open>analyzeBody\<close> builds from the reply of
  \<open>ai_sample\<close> for ADA.
\<close>

definition analyzing_state :: analyzer_state where
  "analyzing_state =
     \<lparr> currentUser = \<lparr> username = ''u1'', role = UniversityID \<rparr>,
       selectedBodyKeys = [''ADA'', ''GDC''],
       programContent = ''Year 1 covers oral anatomy.'',
       programContentLanguage = English,
       analysisResults = None,
       isLoading = False,
       isSubmitting = False,
       error = None,
       showPrintableReport = False,
       revisingSubmissionInfo = None,
       hasPendingSubmission = False,
       stored_submissions = [] \<rparr>"

definition sample_group :: AnalysisResultsGroup where
  "sample_group = \<lparr>
      accreditationBodyKey = ''ADA'',
      accreditationBodyName = ''American Dental Association (ADA CODA)'',
      items = [
        \<lparr> standardId = JStr ''ADA-1.1'', standardName = JStr ''Curriculum Management & Evaluation'',
          matchPercentage = Finite 60, improvementFeedback = JStr ''Describe the review cycle.'',
          reasoning = JStr ''Reasoning not explicitly provided by AI.'' \<rparr>,
        \<lparr> standardId = JStr ''XYZ-9'', standardName = JStr ''Unknown Standard'',
          matchPercentage = Finite 80, improvementFeedback = JStr ''Describe the review cycle.'',
          reasoning = JUndefined \<rparr> ] \<rparr>"

text \<open>
  A submission of \<open>u1\<close> that awaits review, the same submission after a reviewer has
  approved it, the state of the analyzer of \<open>u1\<close> with analysis results on the screen
  while that pending submission is in the store, and a review dialog that was opened on the
  pending submission and holds a note text.
\<close>

definition pending_submission :: Submission where
  "pending_submission =
     \<lparr> sub_id = ''s1'', submittedByUsername = ''u1'', submittedByUserRole = UniversityID,
       submittedAt = 1000, sub_programContent = ''Year 1 covers oral anatomy.'',
       sub_programContentLanguage = English, sub_analysisResults = [sample_group],
       sub_selectedBodyKeys = [''ADA'', ''GDC''], status = Pending, sub_notes = [] \<rparr>"

definition analyzed_state :: analyzer_state where
  "analyzed_state =
     analyzing_state \<lparr> analysisResults := Some [sample_group],
                       stored_submissions := [pending_submission] \<rparr>"



text \<open>Two user registries and the messages of a dialog.\<close>

definition registry_without_admin :: "StoredUser list" where
  "registry_without_admin =
     [\<lparr> su_username = ''bob'', su_role = UniversityID, su_password = Some ''bobpass'' \<rparr>]"

definition registry_with_admin :: "StoredUser list" where
  "registry_with_admin =
     [\<lparr> su_username = ''Admin'', su_role = Admin, su_password = Some ''secret'' \<rparr>,
      \<lparr> su_username = ''bob'', su_role = UniversityID, su_password = Some ''bobpass'' \<rparr>]"

definition inbox_state :: messages_state where
  "inbox_state =
     \<lparr> messages =
         [\<lparr> msg_id = ''m1'', senderUsername = ''admin'', senderRole = Admin,
            recipientIdentifier = \<lparr> rcp_type = ToRole, rcp_value = ''University Lead'' \<rparr>,
            msg_subject = ''Review queue'', msg_body = ''Two submissions are waiting.'',
            msg_timestamp = 1000, readBy = None \<rparr>,
          \<lparr> msg_id = ''m2'', senderUsername = ''admin'', senderRole = Admin,
            recipientIdentifier = \<lparr> rcp_type = ToUser, rcp_value = ''l1'' \<rparr>,
            msg_subject = ''Welcome'', msg_body = ''Hello l1.'',
            msg_timestamp = 2000, readBy = Some Map.empty \<rparr>],
       selectedMessage = None,
       stored_messages = [] \<rparr>"

section \<open>Lemmas\<close>

lemma clamp_percentage_range:
  "js_le (Finite 0) (clamp_percentage v) \<and> js_le (clamp_percentage v) (Finite 100)"
proof (cases v)
  case (JNum n)
  then show ?thesis
    by (cases n) (simp_all add: clamp_percentage_def Math_max_def Math_min_def)
qed (simp_all add: clamp_percentage_def)

lemma reconcileItem_matchPercentage:
  "reconcileItem b item = Inr r \<Longrightarrow>
     matchPercentage r = clamp_percentage (raw_matchPercentage item)"
  by (auto simp: reconcileItem_def Let_def split: sum.splits)

lemma lower_strip_Nil: "lower_strip [] = []"
  by (simp add: lower_strip_def toLowerCase_def)

lemma normalizeId_JStr: "normalizeId (JStr s) = Inr (lower_strip s)"
  by (simp add: normalizeId_def lower_strip_Nil)

lemma id_matches_JStr:
  "id_matches s (JStr rid) = Inr (lower_strip (std_id s) = lower_strip rid)"
  by (simp add: id_matches_def normalizeId_JStr)

lemma find_standard_JStr:
  "find_standard ss (JStr rid) = Inr (find (\<lambda>s. lower_strip (std_id s) = lower_strip rid) ss)"
  by (induction ss) (simp_all add: id_matches_JStr)

lemma find_distinct_key:
  "distinct (map f xs) \<Longrightarrow> x \<in> set xs \<Longrightarrow> find (\<lambda>y. f y = f x) xs = Some x"
proof (induction xs)
  case Nil
  then show ?case by simp
next
  case (Cons a xs)
  show ?case
  proof (cases "a = x")
    case True
    then show ?thesis by simp
  next
    case False
    with Cons.prems have x: "x \<in> set xs" by simp
    from Cons.prems x have "f a \<noteq> f x" by force
    with Cons x show ?thesis by simp
  qed
qed

lemma catalog_ids_distinct:
  "b \<in> set ACCREDITATION_BODIES \<Longrightarrow> distinct (map (\<lambda>s. lower_strip (std_id s)) (standards b))"
proof -
  have "distinct (map (\<lambda>s. lower_strip (std_id s)) (standards ADA))" by code_simp
  moreover have "distinct (map (\<lambda>s. lower_strip (std_id s)) (standards GDC))" by code_simp
  moreover have "distinct (map (\<lambda>s. lower_strip (std_id s)) (standards NCAAA))" by code_simp
  moreover assume "b \<in> set ACCREDITATION_BODIES"
  ultimately show ?thesis by (auto simp: ACCREDITATION_BODIES_def)
qed

lemma find_standard_Some:
  "find_standard ss v = Inr (Some s) \<Longrightarrow> s \<in> set ss \<and> id_matches s v = Inr True"
  by (induction ss) (auto split: sum.splits bool.splits)

lemma reconcileItem_standardId:
  "reconcileItem b item = Inr r \<Longrightarrow>
     (\<exists>s\<in>set (standards b). id_matches s (raw_standardId item) = Inr True
        \<and> standardId r = JStr (std_id s) \<and> standardName r = JStr (std_name s))
     \<or> (find_standard (standards b) (raw_standardId item) = Inr None
        \<and> standardId r = js_or (raw_standardId item) (JStr ''N/A''))"
proof -
  assume a: "reconcileItem b item = Inr r"
  then obtain m where f: "find_standard (standards b) (raw_standardId item) = Inr m"
    by (auto simp: reconcileItem_def Let_def split: sum.splits)
  show ?thesis
  proof (cases m)
    case None
    with a f show ?thesis by (auto simp: reconcileItem_def Let_def)
  next
    case (Some s)
    with f have "s \<in> set (standards b) \<and> id_matches s (raw_standardId item) = Inr True"
      by (simp add: find_standard_Some)
    moreover from a f Some have "standardId r = JStr (std_id s) \<and> standardName r = JStr (std_name s)"
      by (auto simp: reconcileItem_def Let_def)
    ultimately show ?thesis by blast
  qed
qed

lemma analyzeBody_Inr:
  "analyzeBody ai k = Inr g \<Longrightarrow>
     \<exists>b elems rs. find (\<lambda>b. body_key b = k) ACCREDITATION_BODIES = Some b
        \<and> ai b = ParsedResults elems \<and> map_results b elems = Inr rs
        \<and> g = \<lparr> accreditationBodyKey = body_key b, accreditationBodyName = body_name b,
                 items = filter (\<lambda>i. standardId i \<noteq> JStr ''N/A'') rs \<rparr>"
  by (auto simp: analyzeBody_def split: option.splits ai_reply.splits sum.splits)

lemma js_less_clamp:
  "js_less (clamp_percentage (JNum n)) (Finite 75) = js_less n (Finite 75)"
  by (cases n) (simp_all add: clamp_percentage_def js_less_def Math_max_def Math_min_def)

lemma reconcileItem_reasoning:
  "reconcileItem b item = Inr r \<Longrightarrow>
     reasoning r = backfill_reasoning (raw_reasoning item) (raw_matchPercentage item)"
  by (auto simp: reconcileItem_def Let_def split: sum.splits)

lemma failure_line_nonempty: "failure_line e \<noteq> []"
  by (simp add: failure_line_def)

lemma add_failure_line:
  "add_failure prevError (message e) =
     Some ((case prevError of Some p \<Rightarrow> if p \<noteq> [] then p @ [CHR 0x0A] else [] | None \<Rightarrow> [])
           @ failure_line e)"
  by (simp add: add_failure_def failure_line_def)

lemma join_lines_Cons: "ls \<noteq> [] \<Longrightarrow> join_lines (l # ls) = l @ [CHR 0x0A] @ join_lines ls"
  by (cases ls) simp_all

lemma join_lines_nonempty: "l \<noteq> [] \<Longrightarrow> join_lines (l # ls) \<noteq> []"
  by (cases ls) simp_all

lemma join_lines_snoc:
  "ls \<noteq> [] \<Longrightarrow> join_lines (ls @ [l]) = join_lines ls @ [CHR 0x0A] @ l"
proof (induction ls rule: join_lines.induct)
  case 1
  then show ?case by simp
next
  case (2 l')
  then show ?case by simp
next
  case (3 l' v va)
  then show ?case by simp
qed

lemma forEach_settled_eq:
  "forEach_settled rs (acc, err, enc) =
     (acc @ fulfilled rs,
      foldl (\<lambda>p e. add_failure p (message e)) err (rejected rs),
      enc \<or> rejected rs \<noteq> [])"
proof (induction rs arbitrary: acc err enc)
  case Nil
  then show ?case by simp
next
  case (Cons r rs)
  then show ?case by (cases r) simp_all
qed

lemma fold_failures_Some:
  "p \<noteq> [] \<Longrightarrow>
     foldl (\<lambda>p e. add_failure p (message e)) (Some p) es
       = Some (join_lines (p # map failure_line es))"
proof (induction es arbitrary: p)
  case Nil
  then show ?case by simp
next
  case (Cons e es)
  have ne: "p @ [CHR 0x0A] @ failure_line e \<noteq> []" by simp
  have "foldl (\<lambda>p e. add_failure p (message e)) (Some p) (e # es)
          = foldl (\<lambda>p e. add_failure p (message e)) (Some (p @ [CHR 0x0A] @ failure_line e)) es"
    using Cons.prems by (simp add: add_failure_line)
  also have "\<dots> = Some (join_lines ((p @ [CHR 0x0A] @ failure_line e) # map failure_line es))"
    by (rule Cons.IH [OF ne])
  also have "join_lines ((p @ [CHR 0x0A] @ failure_line e) # map failure_line es)
               = join_lines (p # map failure_line (e # es))"
    by (cases es) simp_all
  finally show ?case .
qed

lemma fold_failures_None:
  "foldl (\<lambda>p e. add_failure p (message e)) None es
     = (if es = [] then None else Some (join_lines (map failure_line es)))"
proof (cases es)
  case Nil
  then show ?thesis by simp
next
  case (Cons e es')
  have "foldl (\<lambda>p e. add_failure p (message e)) None (e # es')
          = foldl (\<lambda>p e. add_failure p (message e)) (Some (failure_line e)) es'"
    by (simp add: add_failure_line)
  also have "\<dots> = Some (join_lines (failure_line e # map failure_line es'))"
    by (rule fold_failures_Some [OF failure_line_nonempty])
  finally show ?thesis using Cons by simp
qed

lemma run_analysis_results:
  "analysisResults (run_analysis ai st) =
     (let rs = map (analyzeBody ai) (selectedBodyKeys st)
      in if fulfilled rs = [] then None else Some (fulfilled rs))"
  by (simp add: run_analysis_def forEach_settled_eq Let_def)

lemma run_analysis_error:
  "error (run_analysis ai st) =
     (let rs = map (analyzeBody ai) (selectedBodyKeys st)
      in if rejected rs = [] then None
         else if fulfilled rs = []
         then Some ''Failed to analyze content for all selected accreditation bodies. Please check your input or try again later.''
         else Some (join_lines (map failure_line (rejected rs))))"
  by (simp add: run_analysis_def forEach_settled_eq Let_def fold_failures_None)

lemma handleSubmitAnalysis_runs:
  assumes "trim (programContent st) \<noteq> []" and "selectedBodyKeys st \<noteq> []"
    and "\<not> (hasPendingSubmission st \<and> role (currentUser st) = UniversityID
             \<and> revisingSubmissionInfo st = None)"
  shows "handleSubmitAnalysis ai st = run_analysis ai st"
proof -
  from assms(3) have "(if hasPendingSubmission st \<and> role (currentUser st) = UniversityID
             \<and> revisingSubmissionInfo st = None then a else b) = b" for a b :: analyzer_state
    by (rule if_not_P)
  with assms(1,2) show ?thesis
    unfolding handleSubmitAnalysis_def by simp
qed

lemma sample_settled:
  "analyzeBody ai_sample ''ADA'' = Inr sample_group"
  "analyzeBody ai_sample ''GDC'' = Inl (Error ''Network error'')"
  by code_simp+

lemma sample_trim: "trim ''Year 1 covers oral anatomy.'' \<noteq> []"
  by code_simp


lemma find_filter_exists:
  "(find P (filter Q xs) \<noteq> None) = (\<exists>s\<in>set xs. Q s \<and> P s)"
  by (auto simp: find_None_iff)

lemma loadSubmissionsData_flag:
  assumes "role (currentUser st) = UniversityID"
  shows "hasPendingSubmission (loadSubmissionsData st)
       = (\<exists>s\<in>set (stored_submissions st).
            submittedByUsername s = username (currentUser st) \<and> status s = Pending)"
proof -
  have "hasPendingSubmission (loadSubmissionsData st)
          = (find (\<lambda>s. status s = Pending)
               (filter (\<lambda>s. submittedByUsername s = username (currentUser st))
                  (stored_submissions st)) \<noteq> None)"
    using assms by (simp add: loadSubmissionsData_def Let_def)
  then show ?thesis
    by (simp only: find_filter_exists)
qed

lemma handleSubmitForReview_appends:
  "analysisResults st = Some res \<Longrightarrow> programContent st \<noteq> [] \<Longrightarrow>
     (\<exists>n. stored_submissions (handleSubmitForReview NoFault newId now st)
             = stored_submissions st @ [n]
          \<and> sub_id n = newId \<and> submittedByUsername n = username (currentUser st)
          \<and> status n = Pending)
     \<and> hasPendingSubmission (handleSubmitForReview NoFault newId now st)
     \<and> revisingSubmissionInfo (handleSubmitForReview NoFault newId now st) = None
     \<and> analysisResults (handleSubmitForReview NoFault newId now st) = None"
  by (simp add: handleSubmitForReview_def Let_def)

lemma handleSubmitForReview_refuses:
  "analysisResults st = None \<or> programContent st = [] \<Longrightarrow>
     handleSubmitForReview fault newId now st =
       st\<lparr> error := Some ''Cannot submit for review: analysis results or program content is missing.'' \<rparr>"
  by (auto simp: handleSubmitForReview_def split: option.splits)

lemma handleSubmitForReview_store_throws:
  "analysisResults st = Some res \<Longrightarrow> programContent st \<noteq> [] \<Longrightarrow>
   fault = ReadThrows e \<or> fault = WriteThrows e \<Longrightarrow>
     handleSubmitForReview fault newId now st =
       st\<lparr> error := Some (''Failed to submit for review: '' @ message e @ ''. Please try again.''),
           isSubmitting := False \<rparr>"
  by (auto simp: handleSubmitForReview_def submit_failed_def Let_def)

lemma trim_note: "trim '' Please add detail. '' = ''Please add detail.''"
  by code_simp

lemma lower_admin: "toLowerCase ''admin'' = ''admin''" "toLowerCase ''ADMIN'' = ''admin''"
  "toLowerCase ''Admin'' = ''admin''" "toLowerCase ''bob'' = ''bob''"
  by code_simp+

lemma insort_key_map:
  "(\<And>y. k (g y) = k y) \<Longrightarrow> map g (insort_key k x xs) = insort_key k (g x) (map g xs)"
  by (induction xs) simp_all

lemma sort_key_map:
  "(\<And>y. k (g y) = k y) \<Longrightarrow> map g (sort_key k xs) = sort_key k (map g xs)"
  by (induction xs) (simp_all add: insort_key_map)

lemma sort_key_twice: "sort_key k (sort_key k xs) = sort_key k xs"
  by (rule sort_key_id_if_sorted) (rule sorted_sort_key)

lemma with_reader_twice: "with_reader u (with_reader u m) = with_reader u m"
  by (simp add: with_reader_def)

lemma with_reader_fields:
  "msg_id (with_reader u m) = msg_id m" "msg_timestamp (with_reader u m) = msg_timestamp m"
  by (simp_all add: with_reader_def)

lemma mark_messages:
  "messages (markMessageAsRead cu i st) =
     sort_newest_first
       (map (\<lambda>msg. if msg_id msg = i then with_reader (username cu) msg else msg) (messages st))"
  "stored_messages (markMessageAsRead cu i st) =
     map (\<lambda>msg. if msg_id msg = i then with_reader (username cu) msg else msg) (messages st)"
  "selectedMessage (markMessageAsRead cu i st) =
     map_option (\<lambda>msg. if msg_id msg = i then with_reader (username cu) msg else msg)
       (selectedMessage st)"
  by (simp_all add: markMessageAsRead_def Let_def split: option.splits)

lemma trim_first_note: "trim ''First note.'' = ''First note.''"
  by code_simp

text \<open>
  One reviewer, one pending submission: the reviewer opens the dialog, adds a first note
  and closes the dialog with \<^verbatim>\<open>onClose(false)\<close>, which does not reload the list of the
  analyzer; the dialog opened again on the same entry of that list starts without the first
  note, and the second note replaces the first one in the store.
\<close>

lemma reopened_dialog_loses_note:
  "handleAddNote NoFault 2500
      ((open_review_modal pending_submission \<lparr> username = ''lead1'', role = UniversityLead \<rparr>)
         \<lparr> newNoteText := ''First note.'' \<rparr>)
      [pending_submission]
     = ((open_review_modal pending_submission \<lparr> username = ''lead1'', role = UniversityLead \<rparr>)
         \<lparr> currentSubmissionNotes :=
              [\<lparr> note_by = ''lead1'', note_role = UniversityLead,
                 note_timestamp = 2500, note_text = ''First note.'' \<rparr>],
            newNoteText := [] \<rparr>,
        [pending_submission \<lparr> sub_notes :=
              [\<lparr> note_by = ''lead1'', note_role = UniversityLead,
                 note_timestamp = 2500, note_text = ''First note.'' \<rparr>] \<rparr>],
        None)
   \<and> snd (handleAddNote NoFault 3000
        ((open_review_modal pending_submission \<lparr> username = ''lead1'', role = UniversityLead \<rparr>)
           \<lparr> newNoteText := '' Please add detail. '' \<rparr>)
        [pending_submission \<lparr> sub_notes :=
              [\<lparr> note_by = ''lead1'', note_role = UniversityLead,
                 note_timestamp = 2500, note_text = ''First note.'' \<rparr>] \<rparr>])
     = ([pending_submission \<lparr> sub_notes :=
              [\<lparr> note_by = ''lead1'', note_role = UniversityLead,
                 note_timestamp = 3000, note_text = ''Please add detail.'' \<rparr>] \<rparr>],
        None)"
  by (simp add: handleAddNote_def Let_def trim_note trim_first_note open_review_modal_def
      pending_submission_def)

lemma map_results_list_all2:
  "map_results b es = Inr rs \<Longrightarrow>
     list_all2 (\<lambda>e r. \<exists>item. e = Elem item \<and> reconcileItem b item = Inr r) es rs"
proof (induction es arbitrary: rs)
  case Nil
  then show ?case by simp
next
  case (Cons e es)
  from Cons.prems obtain r0 rs0 where
    e: "reconcileElem b e = Inr r0" and es: "map_results b es = Inr rs0" and rs: "rs = r0 # rs0"
    by (auto split: sum.splits)
  from e have "\<exists>item. e = Elem item \<and> reconcileItem b item = Inr r0"
    by (cases e) (simp_all add: reconcileElem_def)
  with Cons.IH [OF es] rs show ?case by simp
qed

lemma find_standard_None:
  "find_standard ss v = Inr None \<Longrightarrow> s \<in> set ss \<Longrightarrow> id_matches s v = Inr False"
  by (induction ss) (auto split: sum.splits bool.splits)

lemma catalog_no_NA:
  "b \<in> set ACCREDITATION_BODIES \<Longrightarrow> s \<in> set (standards b) \<Longrightarrow> std_id s \<noteq> ''N/A''"
  by (auto simp: ACCREDITATION_BODIES_def ADA_def GDC_def NCAAA_def)

lemma returned_NA_is_dropped:
  "analyzeBody (\<lambda>b. ParsedResults [Elem (returned_item (JStr ''N/A'') (JNum (Finite 50)) JUndefined)])
      ''ADA''
     = Inr \<lparr> accreditationBodyKey = ''ADA'',
             accreditationBodyName = ''American Dental Association (ADA CODA)'',
             items = [] \<rparr>"
  by code_simp

section \<open>Claims\<close>

text \<open>
  C1 (as the code has it). The result group that \<open>analyzeBody\<close> builds for a body holds,
  in the returned order, exactly the reconciled items whose final \<open>standardId\<close> is not the
  string "N/A". The final \<open>standardId\<close> of a returned item is the id of a standard of that
  body whose normalised id equals the normalised returned id (such an id is never "N/A",
  and the item then carries that standard's name), or, when no standard of the body
  matches, the returned \<open>standardId\<close> itself if it is truthy and "N/A" if it is not. So every
  item of a group has a verified catalog id or an unverified returned id other than "N/A",
  and an item is dropped exactly when no standard matches and its returned id is missing,
  falsy or the string "N/A" itself.
\<close>

theorem C1_group_standardIds:
  "analyzeBody ai k = Inr g \<Longrightarrow>
     \<exists>b elems rs.
        find (\<lambda>b. body_key b = k) ACCREDITATION_BODIES = Some b
      \<and> ai b = ParsedResults elems
      \<and> list_all2
          (\<lambda>e r. \<exists>item. e = Elem item \<and> reconcileItem b item = Inr r
             \<and> ((\<exists>s\<in>set (standards b). id_matches s (raw_standardId item) = Inr True
                    \<and> standardId r = JStr (std_id s) \<and> standardName r = JStr (std_name s)
                    \<and> std_id s \<noteq> ''N/A'')
                \<or> (find_standard (standards b) (raw_standardId item) = Inr None
                    \<and> standardId r = (if truthy (raw_standardId item)
                                       then raw_standardId item else JStr ''N/A'')))
             \<and> ((standardId r = JStr ''N/A'')
                  = (find_standard (standards b) (raw_standardId item) = Inr None
                     \<and> (\<not> truthy (raw_standardId item)
                         \<or> raw_standardId item = JStr ''N/A''))))
          elems rs
      \<and> items g = filter (\<lambda>r. standardId r \<noteq> JStr ''N/A'') rs"
proof -
  assume a: "analyzeBody ai k = Inr g"
  from analyzeBody_Inr [OF a] obtain b elems rs where
    b: "find (\<lambda>b. body_key b = k) ACCREDITATION_BODIES = Some b"
    and e: "ai b = ParsedResults elems" and m: "map_results b elems = Inr rs"
    and g: "items g = filter (\<lambda>i. standardId i \<noteq> JStr ''N/A'') rs"
    by auto
  from b have bc: "b \<in> set ACCREDITATION_BODIES"
    by (auto simp: find_Some_iff)
  have step: "(\<exists>s\<in>set (standards b). id_matches s (raw_standardId item) = Inr True
                    \<and> standardId r = JStr (std_id s) \<and> standardName r = JStr (std_name s)
                    \<and> std_id s \<noteq> ''N/A'')
                \<or> (find_standard (standards b) (raw_standardId item) = Inr None
                    \<and> standardId r = (if truthy (raw_standardId item)
                                       then raw_standardId item else JStr ''N/A''))"
    and drop: "(standardId r = JStr ''N/A'')
                  = (find_standard (standards b) (raw_standardId item) = Inr None
                     \<and> (\<not> truthy (raw_standardId item)
                         \<or> raw_standardId item = JStr ''N/A''))"
    if rc: "reconcileItem b item = Inr r" for item r
  proof -
    from reconcileItem_standardId [OF rc]
    consider s where "s \<in> set (standards b)" "id_matches s (raw_standardId item) = Inr True"
        "standardId r = JStr (std_id s)" "standardName r = JStr (std_name s)"
      | "find_standard (standards b) (raw_standardId item) = Inr None"
        "standardId r = js_or (raw_standardId item) (JStr ''N/A'')"
      by blast
    then have "((\<exists>s\<in>set (standards b). id_matches s (raw_standardId item) = Inr True
                    \<and> standardId r = JStr (std_id s) \<and> standardName r = JStr (std_name s)
                    \<and> std_id s \<noteq> ''N/A'')
                \<or> (find_standard (standards b) (raw_standardId item) = Inr None
                    \<and> standardId r = (if truthy (raw_standardId item)
                                       then raw_standardId item else JStr ''N/A'')))
          \<and> ((standardId r = JStr ''N/A'')
                  = (find_standard (standards b) (raw_standardId item) = Inr None
                     \<and> (\<not> truthy (raw_standardId item)
                         \<or> raw_standardId item = JStr ''N/A'')))"
    proof cases
      case 1
      from 1(1) have na: "std_id s \<noteq> ''N/A''" by (rule catalog_no_NA [OF bc])
      have "find_standard (standards b) (raw_standardId item) \<noteq> Inr None"
        using find_standard_None [of "standards b" "raw_standardId item" s] 1(1,2) by auto
      with 1 na show ?thesis by auto
    next
      case 2
      then show ?thesis by (auto simp: js_or_def)
    qed
    then show "(\<exists>s\<in>set (standards b). id_matches s (raw_standardId item) = Inr True
                    \<and> standardId r = JStr (std_id s) \<and> standardName r = JStr (std_name s)
                    \<and> std_id s \<noteq> ''N/A'')
                \<or> (find_standard (standards b) (raw_standardId item) = Inr None
                    \<and> standardId r = (if truthy (raw_standardId item)
                                       then raw_standardId item else JStr ''N/A''))"
      and "(standardId r = JStr ''N/A'')
                  = (find_standard (standards b) (raw_standardId item) = Inr None
                     \<and> (\<not> truthy (raw_standardId item)
                         \<or> raw_standardId item = JStr ''N/A''))"
      by blast+
  qed
  have "list_all2
          (\<lambda>e r. \<exists>item. e = Elem item \<and> reconcileItem b item = Inr r
             \<and> ((\<exists>s\<in>set (standards b). id_matches s (raw_standardId item) = Inr True
                    \<and> standardId r = JStr (std_id s) \<and> standardName r = JStr (std_name s)
                    \<and> std_id s \<noteq> ''N/A'')
                \<or> (find_standard (standards b) (raw_standardId item) = Inr None
                    \<and> standardId r = (if truthy (raw_standardId item)
                                       then raw_standardId item else JStr ''N/A'')))
             \<and> ((standardId r = JStr ''N/A'')
                  = (find_standard (standards b) (raw_standardId item) = Inr None
                     \<and> (\<not> truthy (raw_standardId item)
                         \<or> raw_standardId item = JStr ''N/A''))))
          elems rs"
    using map_results_list_all2 [OF m]
  proof (rule list_all2_mono)
    fix e r
    assume "\<exists>item. e = Elem item \<and> reconcileItem b item = Inr r"
    then obtain item where i: "e = Elem item" and rc: "reconcileItem b item = Inr r" by blast
    from i rc step [OF rc] drop [OF rc]
    show "\<exists>item. e = Elem item \<and> reconcileItem b item = Inr r
             \<and> ((\<exists>s\<in>set (standards b). id_matches s (raw_standardId item) = Inr True
                    \<and> standardId r = JStr (std_id s) \<and> standardName r = JStr (std_name s)
                    \<and> std_id s \<noteq> ''N/A'')
                \<or> (find_standard (standards b) (raw_standardId item) = Inr None
                    \<and> standardId r = (if truthy (raw_standardId item)
                                       then raw_standardId item else JStr ''N/A'')))
             \<and> ((standardId r = JStr ''N/A'')
                  = (find_standard (standards b) (raw_standardId item) = Inr None
                     \<and> (\<not> truthy (raw_standardId item)
                         \<or> raw_standardId item = JStr ''N/A'')))"
      by blast
  qed
  with b e g show ?thesis by blast
qed

theorem C1_group_standardIds_witness:
  "analyzeBody ai_sample ''ADA'' = Inr sample_group
   \<and> (\<exists>rs. list_all2 (\<lambda>e r. \<exists>item. e = Elem item \<and> reconcileItem ADA item = Inr r)
             [Elem (returned_item (JStr ''ada 1.1'') (JNum (Finite 60)) JUndefined),
              Elem (returned_item (JStr ''XYZ-9'') (JNum (Finite 80)) JUndefined),
              Elem (returned_item JUndefined (JNum (Finite 10)) JUndefined)] rs
          \<and> length rs = 3
          \<and> items sample_group = filter (\<lambda>r. standardId r \<noteq> JStr ''N/A'') rs)
   \<and> length (items sample_group) = 2"
proof -
  have a: "analyzeBody ai_sample ''ADA'' = Inr sample_group"
    by (rule sample_settled)
  have f: "find (\<lambda>b. body_key b = ''ADA'') ACCREDITATION_BODIES = Some ADA"
    by (simp add: ACCREDITATION_BODIES_def ADA_def)
  have e: "ai_sample ADA = ParsedResults
             [Elem (returned_item (JStr ''ada 1.1'') (JNum (Finite 60)) JUndefined),
              Elem (returned_item (JStr ''XYZ-9'') (JNum (Finite 80)) JUndefined),
              Elem (returned_item JUndefined (JNum (Finite 10)) JUndefined)]"
    by (simp add: ai_sample_def ADA_def)
  from C1_group_standardIds [OF a] obtain b elems rs where
    b: "find (\<lambda>b. body_key b = ''ADA'') ACCREDITATION_BODIES = Some b"
    and el: "ai_sample b = ParsedResults elems"
    and l: "list_all2
          (\<lambda>e r. \<exists>item. e = Elem item \<and> reconcileItem b item = Inr r
             \<and> ((\<exists>s\<in>set (standards b). id_matches s (raw_standardId item) = Inr True
                    \<and> standardId r = JStr (std_id s) \<and> standardName r = JStr (std_name s)
                    \<and> std_id s \<noteq> ''N/A'')
                \<or> (find_standard (standards b) (raw_standardId item) = Inr None
                    \<and> standardId r = (if truthy (raw_standardId item)
                                       then raw_standardId item else JStr ''N/A'')))
             \<and> ((standardId r = JStr ''N/A'')
                  = (find_standard (standards b) (raw_standardId item) = Inr None
                     \<and> (\<not> truthy (raw_standardId item)
                         \<or> raw_standardId item = JStr ''N/A''))))
          elems rs"
    and g: "items sample_group = filter (\<lambda>r. standardId r \<noteq> JStr ''N/A'') rs"
    by blast
  from b f have bA: "b = ADA" by simp
  from el e bA have els: "elems =
             [Elem (returned_item (JStr ''ada 1.1'') (JNum (Finite 60)) JUndefined),
              Elem (returned_item (JStr ''XYZ-9'') (JNum (Finite 80)) JUndefined),
              Elem (returned_item JUndefined (JNum (Finite 10)) JUndefined)]"
    by simp
  have l': "list_all2 (\<lambda>e r. \<exists>item. e = Elem item \<and> reconcileItem ADA item = Inr r) elems rs"
    using l unfolding bA by (rule list_all2_mono) blast
  from l' have "length rs = length elems"
    by (simp add: list_all2_lengthD)
  with els have n: "length rs = 3" by simp
  have k: "length (items sample_group) = 2"
    by (simp add: sample_group_def)
  from a l' n g k show ?thesis
    unfolding els by blast
qed

theorem C1_dangling_id_counterexample:
  "analyzeBody ai_sample ''ADA'' = Inr \<lparr>
      accreditationBodyKey = ''ADA'',
      accreditationBodyName = ''American Dental Association (ADA CODA)'',
      items = [
        \<lparr> standardId = JStr ''ADA-1.1'', standardName = JStr ''Curriculum Management & Evaluation'',
          matchPercentage = Finite 60, improvementFeedback = JStr ''Describe the review cycle.'',
          reasoning = JStr ''Reasoning not explicitly provided by AI.'' \<rparr>,
        \<lparr> standardId = JStr ''XYZ-9'', standardName = JStr ''Unknown Standard'',
          matchPercentage = Finite 80, improvementFeedback = JStr ''Describe the review cycle.'',
          reasoning = JUndefined \<rparr> ] \<rparr>
   \<and> ''XYZ-9'' \<notin> set (map std_id (standards ADA))"
proof -
  have "''XYZ-9'' \<notin> set (map std_id (standards ADA))"
    by (simp add: ADA_def)
  then show ?thesis
    by (simp add: sample_settled sample_group_def)
qed

text \<open>
  C2 (as the code has it). The limit of one pending submission is kept by the analysis,
  not by the creation of a submission. For a user with role University ID the effect
  \<open>loadSubmissionsData\<close> sets the flag \<open>hasPendingSubmission\<close> exactly when the store holds
  a pending submission of that user, and while the flag is set and no revision is loaded
  \<open>handleSubmitAnalysis\<close> refuses to start an analysis (it only sets the error text). Users
  with the roles Admin and University Lead are never refused for that reason.
  \<open>handleSubmitForReview\<close> itself looks neither at the flag nor at the submissions in the
  store: it refuses, changing only the error text, exactly when the analysis results or the
  program content are missing. Otherwise, when the store can be read and written, it
  appends one pending submission of the current user, sets the flag and leaves the
  revision; when the store throws, nothing is stored, results, content and flag stay as they
  are, and the error text is "Failed to submit for review: ", the message of the exception
  and ". Please try again.".
\<close>

theorem C2_pending_gate:
  "(role (currentUser st) = UniversityID \<longrightarrow>
      hasPendingSubmission (loadSubmissionsData st)
        = (\<exists>s\<in>set (stored_submissions st).
             submittedByUsername s = username (currentUser st) \<and> status s = Pending))
   \<and> (role (currentUser st) = UniversityID \<and> hasPendingSubmission st
       \<and> revisingSubmissionInfo st = None
       \<and> trim (programContent st) \<noteq> [] \<and> selectedBodyKeys st \<noteq> [] \<longrightarrow>
      handleSubmitAnalysis ai st =
        st\<lparr> error := Some ''You have a submission pending review. Cannot start a new analysis.'' \<rparr>)
   \<and> (role (currentUser st) \<noteq> UniversityID
       \<and> trim (programContent st) \<noteq> [] \<and> selectedBodyKeys st \<noteq> [] \<longrightarrow>
      handleSubmitAnalysis ai st = run_analysis ai st)
   \<and> (analysisResults st = Some res \<and> programContent st \<noteq> [] \<longrightarrow>
      (\<exists>n. stored_submissions (handleSubmitForReview NoFault newId now st)
              = stored_submissions st @ [n]
          \<and> sub_id n = newId \<and> submittedByUsername n = username (currentUser st)
          \<and> status n = Pending)
      \<and> hasPendingSubmission (handleSubmitForReview NoFault newId now st)
      \<and> revisingSubmissionInfo (handleSubmitForReview NoFault newId now st) = None
      \<and> analysisResults (handleSubmitForReview NoFault newId now st) = None)
   \<and> (analysisResults st = Some res \<and> programContent st \<noteq> []
       \<and> (fault = ReadThrows e \<or> fault = WriteThrows e) \<longrightarrow>
      handleSubmitForReview fault newId now st =
        st\<lparr> error := Some (''Failed to submit for review: '' @ message e @ ''. Please try again.''),
            isSubmitting := False \<rparr>)
   \<and> (analysisResults st = None \<or> programContent st = [] \<longrightarrow>
      handleSubmitForReview fault newId now st =
        st\<lparr> error := Some ''Cannot submit for review: analysis results or program content is missing.'' \<rparr>)"
proof (intro conjI impI)
  assume "role (currentUser st) = UniversityID"
  then show "hasPendingSubmission (loadSubmissionsData st)
        = (\<exists>s\<in>set (stored_submissions st).
             submittedByUsername s = username (currentUser st) \<and> status s = Pending)"
    by (rule loadSubmissionsData_flag)
next
  assume "role (currentUser st) = UniversityID \<and> hasPendingSubmission st
       \<and> revisingSubmissionInfo st = None
       \<and> trim (programContent st) \<noteq> [] \<and> selectedBodyKeys st \<noteq> []"
  then show "handleSubmitAnalysis ai st =
        st\<lparr> error := Some ''You have a submission pending review. Cannot start a new analysis.'' \<rparr>"
    by (simp add: handleSubmitAnalysis_def)
next
  assume "role (currentUser st) \<noteq> UniversityID
       \<and> trim (programContent st) \<noteq> [] \<and> selectedBodyKeys st \<noteq> []"
  then show "handleSubmitAnalysis ai st = run_analysis ai st"
    by (simp add: handleSubmitAnalysis_def)
next
  assume a: "analysisResults st = Some res \<and> programContent st \<noteq> []"
  from a have r: "analysisResults st = Some res" and c: "programContent st \<noteq> []" by simp_all
  from handleSubmitForReview_appends [OF r c, of newId now]
  show "\<exists>n. stored_submissions (handleSubmitForReview NoFault newId now st)
              = stored_submissions st @ [n]
          \<and> sub_id n = newId \<and> submittedByUsername n = username (currentUser st)
          \<and> status n = Pending"
    and "hasPendingSubmission (handleSubmitForReview NoFault newId now st)"
    and "revisingSubmissionInfo (handleSubmitForReview NoFault newId now st) = None"
    and "analysisResults (handleSubmitForReview NoFault newId now st) = None"
    by blast+
next
  assume a: "analysisResults st = Some res \<and> programContent st \<noteq> []
       \<and> (fault = ReadThrows e \<or> fault = WriteThrows e)"
  then have "analysisResults st = Some res" and "programContent st \<noteq> []"
    and "fault = ReadThrows e \<or> fault = WriteThrows e" by simp_all
  then show "handleSubmitForReview fault newId now st =
        st\<lparr> error := Some (''Failed to submit for review: '' @ message e @ ''. Please try again.''),
            isSubmitting := False \<rparr>"
    by (rule handleSubmitForReview_store_throws)
next
  assume "analysisResults st = None \<or> programContent st = []"
  then show "handleSubmitForReview fault newId now st =
        st\<lparr> error := Some ''Cannot submit for review: analysis results or program content is missing.'' \<rparr>"
    by (rule handleSubmitForReview_refuses)
qed

theorem C2_second_pending_counterexample:
  "role (currentUser analyzed_state) = UniversityID
   \<and> username (currentUser analyzed_state) = ''u1''
   \<and> stored_submissions analyzed_state = [pending_submission]
   \<and> submittedByUsername pending_submission = ''u1''
   \<and> status pending_submission = Pending
   \<and> stored_submissions (handleSubmitForReview NoFault ''s2'' 2000 analyzed_state)
       = [pending_submission,
          \<lparr> sub_id = ''s2'', submittedByUsername = ''u1'', submittedByUserRole = UniversityID,
            submittedAt = 2000, sub_programContent = ''Year 1 covers oral anatomy.'',
            sub_programContentLanguage = English, sub_analysisResults = [sample_group],
            sub_selectedBodyKeys = [''ADA'', ''GDC''], status = Pending, sub_notes = [] \<rparr>]"
  by (simp add: analyzed_state_def analyzing_state_def pending_submission_def
      handleSubmitForReview_def)

theorem C2_pending_gate_witness:
  "hasPendingSubmission (loadSubmissionsData analyzed_state)
   \<and> handleSubmitAnalysis ai_sample (analyzing_state \<lparr> hasPendingSubmission := True \<rparr>)
       = analyzing_state \<lparr> hasPendingSubmission := True,
           error := Some ''You have a submission pending review. Cannot start a new analysis.'' \<rparr>
   \<and> handleSubmitAnalysis ai_sample
        (analyzing_state \<lparr> currentUser := \<lparr> username = ''lead1'', role = UniversityLead \<rparr>,
                           hasPendingSubmission := True \<rparr>)
       = run_analysis ai_sample
        (analyzing_state \<lparr> currentUser := \<lparr> username = ''lead1'', role = UniversityLead \<rparr>,
                           hasPendingSubmission := True \<rparr>)
   \<and> hasPendingSubmission (handleSubmitForReview NoFault ''s2'' 2000 analyzed_state)
   \<and> handleSubmitForReview (WriteThrows (Error ''The quota has been exceeded.'')) ''s2'' 2000
        analyzed_state
       = analyzed_state \<lparr> error := Some ''Failed to submit for review: The quota has been exceeded.. Please try again.'',
           isSubmitting := False \<rparr>
   \<and> handleSubmitForReview NoFault ''s2'' 2000 analyzing_state
       = analyzing_state \<lparr> error := Some ''Cannot submit for review: analysis results or program content is missing.'' \<rparr>"
proof -
  have c: "trim ''Year 1 covers oral anatomy.'' \<noteq> []" by (rule sample_trim)
  have 1: "hasPendingSubmission (loadSubmissionsData analyzed_state)"
    using C2_pending_gate [where st = analyzed_state]
    by (simp add: analyzed_state_def analyzing_state_def pending_submission_def)
  have 2: "handleSubmitAnalysis ai_sample (analyzing_state \<lparr> hasPendingSubmission := True \<rparr>)
       = analyzing_state \<lparr> hasPendingSubmission := True,
           error := Some ''You have a submission pending review. Cannot start a new analysis.'' \<rparr>"
    using C2_pending_gate [where st = "analyzing_state \<lparr> hasPendingSubmission := True \<rparr>"
        and ai = ai_sample] c
    by (simp add: analyzing_state_def)
  have 3: "handleSubmitAnalysis ai_sample
        (analyzing_state \<lparr> currentUser := \<lparr> username = ''lead1'', role = UniversityLead \<rparr>,
                           hasPendingSubmission := True \<rparr>)
       = run_analysis ai_sample
        (analyzing_state \<lparr> currentUser := \<lparr> username = ''lead1'', role = UniversityLead \<rparr>,
                           hasPendingSubmission := True \<rparr>)"
    using C2_pending_gate [where st = "analyzing_state \<lparr> currentUser := \<lparr> username = ''lead1'', role = UniversityLead \<rparr>,
                           hasPendingSubmission := True \<rparr>" and ai = ai_sample] c
    by (simp add: analyzing_state_def)
  have 4: "hasPendingSubmission (handleSubmitForReview NoFault ''s2'' 2000 analyzed_state)"
    using C2_pending_gate [where st = analyzed_state and res = "[sample_group]"
        and newId = "''s2''" and now = 2000]
    by (simp add: analyzed_state_def analyzing_state_def)
  have 5: "handleSubmitForReview (WriteThrows (Error ''The quota has been exceeded.'')) ''s2'' 2000
        analyzed_state
       = analyzed_state \<lparr> error := Some ''Failed to submit for review: The quota has been exceeded.. Please try again.'',
           isSubmitting := False \<rparr>"
    using C2_pending_gate [where st = analyzed_state and res = "[sample_group]"
        and newId = "''s2''" and now = 2000
        and fault = "WriteThrows (Error ''The quota has been exceeded.'')"
        and e = "Error ''The quota has been exceeded.''"]
    by (simp add: analyzed_state_def analyzing_state_def)
  have 6: "handleSubmitForReview NoFault ''s2'' 2000 analyzing_state
       = analyzing_state \<lparr> error := Some ''Cannot submit for review: analysis results or program content is missing.'' \<rparr>"
    using C2_pending_gate [where st = analyzing_state and newId = "''s2''" and now = 2000
        and fault = NoFault]
    by (simp add: analyzing_state_def)
  from 1 2 3 4 5 6 show ?thesis by blast
qed

text \<open>
  C3 (as the code has it). For every body of the catalog and every returned item whose
  \<open>standardId\<close> is a string that, lower-cased and with all whitespace and hyphens removed,
  equals the so normalised id of a standard of that body, the reconciled item carries that
  standard's id and name exactly. The normalisation removes nothing else: a returned
  "ada 1.1" reconciles to "ADA-1.1", whereas "ada11", which lacks the dot, matches no
  standard and is kept as it is.
\<close>

theorem C3_normalized_match:
  "b \<in> set ACCREDITATION_BODIES \<Longrightarrow> s \<in> set (standards b) \<Longrightarrow>
   raw_standardId item = JStr rid \<Longrightarrow> lower_strip rid = lower_strip (std_id s) \<Longrightarrow>
   (\<exists>r. reconcileItem b item = Inr r \<and> standardId r = JStr (std_id s)
        \<and> standardName r = JStr (std_name s))"
proof -
  assume b: "b \<in> set ACCREDITATION_BODIES" and s: "s \<in> set (standards b)"
    and i: "raw_standardId item = JStr rid" and n: "lower_strip rid = lower_strip (std_id s)"
  have "find (\<lambda>y. lower_strip (std_id y) = lower_strip (std_id s)) (standards b) = Some s"
    using catalog_ids_distinct [OF b] s by (rule find_distinct_key)
  then have "find_standard (standards b) (JStr rid) = Inr (Some s)"
    by (simp add: find_standard_JStr n)
  then show ?thesis
    by (simp add: reconcileItem_def i)
qed

theorem C3_normalized_match_witness:
  "ADA \<in> set ACCREDITATION_BODIES
   \<and> \<lparr> std_id = ''ADA-1.1'', std_name = ''Curriculum Management & Evaluation'' \<rparr> \<in> set (standards ADA)
   \<and> lower_strip ''ada 1.1'' = lower_strip ''ADA-1.1''
   \<and> (\<exists>r. reconcileItem ADA (returned_item (JStr ''ada 1.1'') (JNum (Finite 60)) JUndefined) = Inr r
          \<and> standardId r = JStr ''ADA-1.1''
          \<and> standardName r = JStr ''Curriculum Management & Evaluation'')"
proof -
  have b: "ADA \<in> set ACCREDITATION_BODIES"
    by (simp add: ACCREDITATION_BODIES_def)
  have s: "\<lparr> std_id = ''ADA-1.1'', std_name = ''Curriculum Management & Evaluation'' \<rparr> \<in> set (standards ADA)"
    by (simp add: ADA_def)
  have i: "raw_standardId (returned_item (JStr ''ada 1.1'') (JNum (Finite 60)) JUndefined) = JStr ''ada 1.1''"
    by (simp add: returned_item_def)
  have n: "lower_strip ''ada 1.1''
             = lower_strip (std_id \<lparr> std_id = ''ADA-1.1'', std_name = ''Curriculum Management & Evaluation'' \<rparr>)"
    by code_simp
  from C3_normalized_match [OF b s i n] b s n show ?thesis
    by simp
qed

theorem C3_ada11_counterexample:
  "reconcileItem ADA (returned_item (JStr ''ada11'') (JNum (Finite 60)) JUndefined)
     = Inr \<lparr> standardId = JStr ''ada11'', standardName = JStr ''Unknown Standard'',
             matchPercentage = Finite 60,
             improvementFeedback = JStr ''Describe the review cycle.'',
             reasoning = JStr ''Reasoning not explicitly provided by AI.'' \<rparr>
   \<and> lower_strip ''ada11'' \<noteq> lower_strip ''ADA-1.1''"
  by code_simp

text \<open>
  C4. For every returned item that the reconciliation turns into a result item, the stored
  \<open>matchPercentage\<close> is 0 when the returned value is not a number, and otherwise the
  returned number clamped to the interval from 0 to 100: a finite number \<open>x\<close> becomes
  \<open>max 0 (min 100 x)\<close>, \<open>Infinity\<close> becomes 100 and \<open>-Infinity\<close> becomes 0. So a returned 150
  is stored as 100, a returned -5 as 0 and the string "high" as 0.
\<close>

theorem C4_matchPercentage_clamped:
  "reconcileItem b item = Inr r \<Longrightarrow>
     matchPercentage r =
       (case raw_matchPercentage item of
          JNum (Finite x) \<Rightarrow> Finite (max 0 (min 100 x))
        | JNum PosInfinity \<Rightarrow> Finite 100
        | JNum NegInfinity \<Rightarrow> Finite 0
        | _ \<Rightarrow> Finite 0)
     \<and> js_le (Finite 0) (matchPercentage r) \<and> js_le (matchPercentage r) (Finite 100)"
proof -
  assume a: "reconcileItem b item = Inr r"
  have m: "matchPercentage r = clamp_percentage (raw_matchPercentage item)"
    using a by (rule reconcileItem_matchPercentage)
  have "clamp_percentage (raw_matchPercentage item) =
          (case raw_matchPercentage item of
             JNum (Finite x) \<Rightarrow> Finite (max 0 (min 100 x))
           | JNum PosInfinity \<Rightarrow> Finite 100
           | JNum NegInfinity \<Rightarrow> Finite 0
           | _ \<Rightarrow> Finite 0)"
    by (simp add: clamp_percentage_def Math_max_def Math_min_def max_def min_def
        split: jsval.splits jsnum.splits)
  then show ?thesis
    using clamp_percentage_range [of "raw_matchPercentage item"] by (simp add: m)
qed

theorem C4_matchPercentage_clamped_witness:
  "(case reconcileItem ADA (returned_item (JStr ''ADA-1.1'') (JNum (Finite 150)) JUndefined) of
      Inr r \<Rightarrow> matchPercentage r = Finite 100 | Inl e \<Rightarrow> False)
   \<and> (case reconcileItem ADA (returned_item (JStr ''ADA-1.1'') (JNum (Finite (- 5))) JUndefined) of
      Inr r \<Rightarrow> matchPercentage r = Finite 0 | Inl e \<Rightarrow> False)
   \<and> (case reconcileItem ADA (returned_item (JStr ''ADA-1.1'') (JStr ''high'') JUndefined) of
      Inr r \<Rightarrow> matchPercentage r = Finite 0 | Inl e \<Rightarrow> False)"
proof -
  have f: "find_standard (standards ADA) (JStr ''ADA-1.1'')
             = Inr (Some \<lparr> std_id = ''ADA-1.1'', std_name = ''Curriculum Management & Evaluation'' \<rparr>)"
    by code_simp
  obtain r1 where h1:
    "reconcileItem ADA (returned_item (JStr ''ADA-1.1'') (JNum (Finite 150)) JUndefined) = Inr r1"
    by (simp add: reconcileItem_def returned_item_def f)
  obtain r2 where h2:
    "reconcileItem ADA (returned_item (JStr ''ADA-1.1'') (JNum (Finite (- 5))) JUndefined) = Inr r2"
    by (simp add: reconcileItem_def returned_item_def f)
  obtain r3 where h3:
    "reconcileItem ADA (returned_item (JStr ''ADA-1.1'') (JStr ''high'') JUndefined) = Inr r3"
    by (simp add: reconcileItem_def returned_item_def f)
  have rm: "\<And>sid mp rs. raw_matchPercentage (returned_item sid mp rs) = mp"
    by (simp add: returned_item_def)
  show ?thesis
    using C4_matchPercentage_clamped [OF h1] C4_matchPercentage_clamped [OF h2]
      C4_matchPercentage_clamped [OF h3]
    by (simp add: h1 h2 h3 rm)
qed

text \<open>
  C5 (as the code has it). When the three checks of \<open>handleSubmitAnalysis\<close> pass, the
  calls for the selected bodies are settled together: if at least one call succeeds, the
  groups of all successful bodies are shown, in the order of selection, whatever happened to
  the other bodies, and for every failed call the error text gets one line "Analysis failed
  for one or more accreditation bodies: " followed by the message of the failure; the line
  names the failed body only when that message does. Only when every call fails, no result
  is shown and the error text is the single message "Failed to analyze content for all
  selected accreditation bodies. Please check your input or try again later.".
\<close>

theorem C5_all_settled:
  "trim (programContent st) \<noteq> [] \<Longrightarrow> selectedBodyKeys st \<noteq> [] \<Longrightarrow>
   \<not> (hasPendingSubmission st \<and> role (currentUser st) = UniversityID
       \<and> revisingSubmissionInfo st = None) \<Longrightarrow>
   rs = map (analyzeBody ai) (selectedBodyKeys st) \<Longrightarrow>
     analysisResults (handleSubmitAnalysis ai st)
       = (if fulfilled rs = [] then None else Some (fulfilled rs))
     \<and> error (handleSubmitAnalysis ai st)
       = (if rejected rs = [] then None
          else if fulfilled rs = []
          then Some ''Failed to analyze content for all selected accreditation bodies. Please check your input or try again later.''
          else Some (join_lines (map failure_line (rejected rs))))"
proof -
  assume c: "trim (programContent st) \<noteq> []" and k: "selectedBodyKeys st \<noteq> []"
    and g: "\<not> (hasPendingSubmission st \<and> role (currentUser st) = UniversityID
       \<and> revisingSubmissionInfo st = None)"
    and rs: "rs = map (analyzeBody ai) (selectedBodyKeys st)"
  have "handleSubmitAnalysis ai st = run_analysis ai st"
    using c k g by (rule handleSubmitAnalysis_runs)
  then show ?thesis
    by (simp add: run_analysis_results run_analysis_error rs Let_def)
qed

theorem C5_all_settled_witness:
  "analysisResults (handleSubmitAnalysis ai_sample analyzing_state) = Some [sample_group]
   \<and> error (handleSubmitAnalysis ai_sample analyzing_state)
       = Some ''Analysis failed for one or more accreditation bodies: Network error''"
proof -
  have c: "trim (programContent analyzing_state) \<noteq> []"
    by (simp add: analyzing_state_def sample_trim)
  have k: "selectedBodyKeys analyzing_state \<noteq> []"
    by (simp add: analyzing_state_def)
  have g: "\<not> (hasPendingSubmission analyzing_state
             \<and> role (currentUser analyzing_state) = UniversityID
             \<and> revisingSubmissionInfo analyzing_state = None)"
    by (simp add: analyzing_state_def)
  have rs: "[Inr sample_group, Inl (Error ''Network error'')]
              = map (analyzeBody ai_sample) (selectedBodyKeys analyzing_state)"
    by (simp add: analyzing_state_def sample_settled)
  from C5_all_settled [OF c k g rs] show ?thesis
    by (simp add: failure_line_def)
qed

theorem C5_warning_counterexample:
  "analysisResults (run_analysis ai_sample analyzing_state) = Some [sample_group]
   \<and> error (run_analysis ai_sample analyzing_state)
       = Some ''Analysis failed for one or more accreditation bodies: Network error''
   \<and> \<not> sublist (body_key GDC)
          ''Analysis failed for one or more accreditation bodies: Network error''
   \<and> \<not> sublist (body_name GDC)
          ''Analysis failed for one or more accreditation bodies: Network error''"
proof -
  have s: "map (analyzeBody ai_sample) (selectedBodyKeys analyzing_state)
             = [Inr sample_group, Inl (Error ''Network error'')]"
    by (simp add: analyzing_state_def sample_settled)
  have "\<not> sublist (body_key GDC)
          ''Analysis failed for one or more accreditation bodies: Network error''"
    by code_simp
  moreover have "\<not> sublist (body_name GDC)
          ''Analysis failed for one or more accreditation bodies: Network error''"
    by code_simp
  ultimately show ?thesis
    by (simp add: run_analysis_results run_analysis_error s failure_line_def)
qed

text \<open>
  C6 (as the code has it). For every reconciled item, a truthy returned reasoning is
  kept. Otherwise, when the returned \<open>matchPercentage\<close> is a number, the reasoning is the
  placeholder "Reasoning not explicitly provided by AI." if the stored \<open>matchPercentage\<close>
  is below 75 and absent if it is not; when the returned \<open>matchPercentage\<close> is not a number,
  the stored \<open>matchPercentage\<close> is 0 and the reasoning is absent. So the reasoning is
  present whenever the stored match is below 75 and the returned \<open>matchPercentage\<close> was a
  number.
\<close>

theorem C6_reasoning_backfill:
  "reconcileItem b item = Inr r \<Longrightarrow>
     (truthy (raw_reasoning item) \<longrightarrow> reasoning r = raw_reasoning item)
   \<and> (\<not> truthy (raw_reasoning item) \<longrightarrow>
        (case raw_matchPercentage item of
           JNum n \<Rightarrow>
             reasoning r = (if js_less (matchPercentage r) (Finite 75)
                            then JStr ''Reasoning not explicitly provided by AI.''
                            else JUndefined)
         | _ \<Rightarrow> matchPercentage r = Finite 0 \<and> reasoning r = JUndefined))
   \<and> ((\<exists>n. raw_matchPercentage item = JNum n) \<and> js_less (matchPercentage r) (Finite 75) \<longrightarrow>
        truthy (reasoning r))"
proof -
  assume a: "reconcileItem b item = Inr r"
  note m = reconcileItem_matchPercentage [OF a]
  note rs = reconcileItem_reasoning [OF a]
  have 1: "truthy (raw_reasoning item) \<longrightarrow> reasoning r = raw_reasoning item"
    by (simp add: rs backfill_reasoning_def js_or_def)
  have 2: "\<not> truthy (raw_reasoning item) \<longrightarrow>
        (case raw_matchPercentage item of
           JNum n \<Rightarrow>
             reasoning r = (if js_less (matchPercentage r) (Finite 75)
                            then JStr ''Reasoning not explicitly provided by AI.''
                            else JUndefined)
         | _ \<Rightarrow> matchPercentage r = Finite 0 \<and> reasoning r = JUndefined)"
    by (cases "raw_matchPercentage item")
      (simp_all add: rs m backfill_reasoning_def js_or_def js_less_clamp,
        simp_all add: clamp_percentage_def)
  have 3: "(\<exists>n. raw_matchPercentage item = JNum n) \<and> js_less (matchPercentage r) (Finite 75) \<longrightarrow>
        truthy (reasoning r)"
    by (auto simp: rs m backfill_reasoning_def js_or_def js_less_clamp)
  from 1 2 3 show ?thesis by blast
qed

theorem C6_reasoning_backfill_witness:
  "reconcileItem ADA (returned_item (JStr ''ADA-1.1'') (JNum (Finite 60)) JUndefined)
     = Inr \<lparr> standardId = JStr ''ADA-1.1'', standardName = JStr ''Curriculum Management & Evaluation'',
             matchPercentage = Finite 60,
             improvementFeedback = JStr ''Describe the review cycle.'',
             reasoning = JStr ''Reasoning not explicitly provided by AI.'' \<rparr>
   \<and> js_less (Finite 60) (Finite 75)
   \<and> truthy (JStr ''Reasoning not explicitly provided by AI.'')
   \<and> (\<exists>r. reconcileItem ADA (returned_item (JStr ''ADA-1.1'') (JStr ''high'') JUndefined) = Inr r
          \<and> matchPercentage r = Finite 0 \<and> reasoning r = JUndefined)
   \<and> (\<exists>r. reconcileItem ADA (returned_item (JStr ''ADA-1.1'') (JNum (Finite 80)) JUndefined) = Inr r
          \<and> reasoning r = JUndefined)
   \<and> (\<exists>r. reconcileItem ADA
             (returned_item (JStr ''ADA-1.1'') (JNum (Finite 80)) (JStr ''Covers the cycle.'')) = Inr r
          \<and> reasoning r = JStr ''Covers the cycle.'')"
proof -
  have f: "find_standard (standards ADA) (JStr ''ADA-1.1'')
             = Inr (Some \<lparr> std_id = ''ADA-1.1'', std_name = ''Curriculum Management & Evaluation'' \<rparr>)"
    by code_simp
  have fields: "\<And>sid mp rs. raw_matchPercentage (returned_item sid mp rs) = mp"
    "\<And>sid mp rs. raw_reasoning (returned_item sid mp rs) = rs"
    "\<And>sid mp rs. raw_standardId (returned_item sid mp rs) = sid"
    by (simp_all add: returned_item_def)
  have a: "reconcileItem ADA (returned_item (JStr ''ADA-1.1'') (JNum (Finite 60)) JUndefined)
     = Inr \<lparr> standardId = JStr ''ADA-1.1'', standardName = JStr ''Curriculum Management & Evaluation'',
             matchPercentage = Finite 60,
             improvementFeedback = JStr ''Describe the review cycle.'',
             reasoning = JStr ''Reasoning not explicitly provided by AI.'' \<rparr>"
    by (simp add: reconcileItem_def returned_item_def f clamp_percentage_def Math_max_def
        Math_min_def backfill_reasoning_def js_or_def js_less_def)
  obtain r2 where h2:
    "reconcileItem ADA (returned_item (JStr ''ADA-1.1'') (JStr ''high'') JUndefined) = Inr r2"
    by (simp add: reconcileItem_def fields f Let_def)
  obtain r3 where h3:
    "reconcileItem ADA (returned_item (JStr ''ADA-1.1'') (JNum (Finite 80)) JUndefined) = Inr r3"
    by (simp add: reconcileItem_def fields f Let_def)
  obtain r4 where h4:
    "reconcileItem ADA
       (returned_item (JStr ''ADA-1.1'') (JNum (Finite 80)) (JStr ''Covers the cycle.'')) = Inr r4"
    by (simp add: reconcileItem_def fields f Let_def)
  have m3: "matchPercentage r3 = Finite 80"
    using reconcileItem_matchPercentage [OF h3]
    by (simp add: fields clamp_percentage_def Math_max_def Math_min_def)
  have l: "js_less (Finite 60) (Finite 75)" "\<not> js_less (Finite 80) (Finite 75)"
    by (simp_all add: js_less_def)
  from C6_reasoning_backfill [OF a] l
  have 1: "truthy (JStr ''Reasoning not explicitly provided by AI.'')"
    by (simp add: fields)
  from C6_reasoning_backfill [OF h2]
  have 2: "matchPercentage r2 = Finite 0 \<and> reasoning r2 = JUndefined"
    by (simp add: fields)
  from C6_reasoning_backfill [OF h3] l
  have 3: "reasoning r3 = JUndefined"
    by (simp add: fields m3)
  from C6_reasoning_backfill [OF h4]
  have 4: "reasoning r4 = JStr ''Covers the cycle.''"
    by (simp add: fields)
  from a l(1) 1 2 3 4 h2 h3 h4 show ?thesis by simp
qed

theorem C6_non_numeric_counterexample:
  "reconcileItem ADA (returned_item (JStr ''ADA-1.1'') (JStr ''high'') JUndefined)
     = Inr \<lparr> standardId = JStr ''ADA-1.1'', standardName = JStr ''Curriculum Management & Evaluation'',
             matchPercentage = Finite 0,
             improvementFeedback = JStr ''Describe the review cycle.'',
             reasoning = JUndefined \<rparr>
   \<and> js_less (Finite 0) (Finite 75)"
  by code_simp




text \<open>
  C8 (as the code has it). \<open>handleSubmit\<close> looks the username up without regard to case
  and compares the password by plain equality with the stored one. When the registry holds
  a user of that name, the login succeeds with the stored name and role if the passwords
  are equal and fails otherwise. When it holds no user of that name, whether it is empty or
  not, the login falls back to the two fixed credentials (admin/adminpass as Admin,
  lead/leadpass as University Lead) and fails in every other case.
\<close>

theorem C8_login_cases:
  "((\<forall>x\<in>set users. toLowerCase (su_username x) \<noteq> toLowerCase uname) \<longrightarrow>
      handleSubmit users uname pw =
        (if toLowerCase uname = ''admin'' \<and> pw = ''adminpass''
         then LoggedIn \<lparr> username = ''admin'', role = Admin \<rparr>
         else if toLowerCase uname = ''lead'' \<and> pw = ''leadpass''
         then LoggedIn \<lparr> username = ''lead'', role = UniversityLead \<rparr>
         else LoginError ''Invalid username or password.''))
   \<and> (find (\<lambda>x. toLowerCase (su_username x) = toLowerCase uname) users = Some f \<longrightarrow>
      handleSubmit users uname pw =
        (if su_password f = Some pw
         then LoggedIn \<lparr> username = su_username f, role = su_role f \<rparr>
         else LoginError ''Invalid username or password.''))"
proof (intro conjI impI)
  assume "\<forall>x\<in>set users. toLowerCase (su_username x) \<noteq> toLowerCase uname"
  then have "find (\<lambda>x. toLowerCase (su_username x) = toLowerCase uname) users = None"
    by (simp add: find_None_iff)
  then show "handleSubmit users uname pw =
        (if toLowerCase uname = ''admin'' \<and> pw = ''adminpass''
         then LoggedIn \<lparr> username = ''admin'', role = Admin \<rparr>
         else if toLowerCase uname = ''lead'' \<and> pw = ''leadpass''
         then LoggedIn \<lparr> username = ''lead'', role = UniversityLead \<rparr>
         else LoginError ''Invalid username or password.'')"
    by (simp add: handleSubmit_def)
next
  assume "find (\<lambda>x. toLowerCase (su_username x) = toLowerCase uname) users = Some f"
  then show "handleSubmit users uname pw =
        (if su_password f = Some pw
         then LoggedIn \<lparr> username = su_username f, role = su_role f \<rparr>
         else LoginError ''Invalid username or password.'')"
    by (simp add: handleSubmit_def)
qed

theorem C8_login_cases_witness:
  "handleSubmit [] ''admin'' ''adminpass'' = LoggedIn \<lparr> username = ''admin'', role = Admin \<rparr>
   \<and> handleSubmit [] ''admin'' ''wrong'' = LoginError ''Invalid username or password.''
   \<and> handleSubmit registry_with_admin ''ADMIN'' ''secret''
        = LoggedIn \<lparr> username = ''Admin'', role = Admin \<rparr>
   \<and> handleSubmit registry_with_admin ''ADMIN'' ''adminpass''
        = LoginError ''Invalid username or password.''"
proof -
  have e: "\<forall>x\<in>set ([] :: StoredUser list). toLowerCase (su_username x) \<noteq> toLowerCase ''admin''"
    by simp
  have f: "find (\<lambda>x. toLowerCase (su_username x) = toLowerCase ''ADMIN'') registry_with_admin
             = Some \<lparr> su_username = ''Admin'', su_role = Admin, su_password = Some ''secret'' \<rparr>"
    by (simp add: registry_with_admin_def lower_admin)
  from C8_login_cases [where users = "[]" and uname = "''admin''" and pw = "''adminpass''"] e
  have 1: "handleSubmit [] ''admin'' ''adminpass'' = LoggedIn \<lparr> username = ''admin'', role = Admin \<rparr>"
    by (simp add: lower_admin)
  from C8_login_cases [where users = "[]" and uname = "''admin''" and pw = "''wrong''"] e
  have 2: "handleSubmit [] ''admin'' ''wrong'' = LoginError ''Invalid username or password.''"
    by (simp add: lower_admin)
  from C8_login_cases [where users = registry_with_admin and uname = "''ADMIN''" and pw = "''secret''"] f
  have 3: "handleSubmit registry_with_admin ''ADMIN'' ''secret''
        = LoggedIn \<lparr> username = ''Admin'', role = Admin \<rparr>"
    by simp
  from C8_login_cases [where users = registry_with_admin and uname = "''ADMIN''" and pw = "''adminpass''"] f
  have 4: "handleSubmit registry_with_admin ''ADMIN'' ''adminpass''
        = LoginError ''Invalid username or password.''"
    by simp
  from 1 2 3 4 show ?thesis by simp
qed

theorem C8_fallback_counterexample:
  "registry_without_admin \<noteq> []
   \<and> handleSubmit registry_without_admin ''admin'' ''adminpass''
       = LoggedIn \<lparr> username = ''admin'', role = Admin \<rparr>"
  by (simp add: registry_without_admin_def handleSubmit_def lower_admin)

text \<open>
  C9. \<open>markMessageAsRead\<close> is idempotent: for every list of messages, every message id
  and every user, marking the message a second time leaves the messages of the dialog, and
  so the \<open>readBy\<close> object of every message with that id, and the selected message as the
  first marking left them, and the stored array holds the same messages.
\<close>

theorem C9_markMessageAsRead_idempotent:
  "messages (markMessageAsRead cu i (markMessageAsRead cu i st))
     = messages (markMessageAsRead cu i st)
   \<and> selectedMessage (markMessageAsRead cu i (markMessageAsRead cu i st))
     = selectedMessage (markMessageAsRead cu i st)
   \<and> set (stored_messages (markMessageAsRead cu i (markMessageAsRead cu i st)))
     = set (stored_messages (markMessageAsRead cu i st))"
proof -
  let ?f = "\<lambda>msg. if msg_id msg = i then with_reader (username cu) msg else msg"
  let ?k = "\<lambda>m. - msg_timestamp m"
  have ff: "?f (?f m) = ?f m" for m
    by (simp add: with_reader_twice with_reader_fields)
  have kf: "?k (?f m) = ?k m" for m
    by (simp add: with_reader_fields)
  have mm: "map ?f (map ?f xs) = map ?f xs" for xs
    by (induction xs) (simp_all add: ff)
  have c: "map ?f (sort_key ?k xs) = sort_key ?k (map ?f xs)" for xs
    by (rule sort_key_map) (rule kf)
  have 1: "map ?f (sort_key ?k (map ?f (messages st))) = sort_key ?k (map ?f (messages st))"
    by (simp only: c mm)
  have "messages (markMessageAsRead cu i (markMessageAsRead cu i st))
          = sort_key ?k (map ?f (sort_key ?k (map ?f (messages st))))"
    by (simp only: mark_messages sort_newest_first_def)
  also have "\<dots> = sort_key ?k (map ?f (messages st))"
    by (simp only: 1 sort_key_twice)
  finally have a: "messages (markMessageAsRead cu i (markMessageAsRead cu i st))
     = messages (markMessageAsRead cu i st)"
    by (simp only: mark_messages sort_newest_first_def)
  have b: "selectedMessage (markMessageAsRead cu i (markMessageAsRead cu i st))
     = selectedMessage (markMessageAsRead cu i st)"
    by (cases "selectedMessage st") (simp_all add: mark_messages ff del: if_split)
  have "stored_messages (markMessageAsRead cu i (markMessageAsRead cu i st))
          = sort_key ?k (map ?f (messages st))"
    by (simp only: mark_messages sort_newest_first_def 1)
  then have d: "set (stored_messages (markMessageAsRead cu i (markMessageAsRead cu i st)))
     = set (stored_messages (markMessageAsRead cu i st))"
    by (simp only: mark_messages set_sort)
  from a b d show ?thesis by blast
qed

theorem C9_markMessageAsRead_idempotent_witness:
  "map (\<lambda>m. (msg_id m, map_option (\<lambda>rb. rb ''l1'') (readBy m)))
     (messages (markMessageAsRead \<lparr> username = ''l1'', role = UniversityLead \<rparr> ''m1''
        (markMessageAsRead \<lparr> username = ''l1'', role = UniversityLead \<rparr> ''m1'' inbox_state)))
     = [(''m2'', Some None), (''m1'', Some (Some True))]"
proof -
  have "map (\<lambda>m. (msg_id m, map_option (\<lambda>rb. rb ''l1'') (readBy m)))
     (messages (markMessageAsRead \<lparr> username = ''l1'', role = UniversityLead \<rparr> ''m1'' inbox_state))
     = [(''m2'', Some None), (''m1'', Some (Some True))]"
    by (simp add: markMessageAsRead_def inbox_state_def sort_newest_first_def with_reader_def)
  with C9_markMessageAsRead_idempotent
         [of "\<lparr> username = ''l1'', role = UniversityLead \<rparr>" "''m1''" inbox_state]
  show ?thesis by simp
qed

end
